theory Spec2Isabelle
  imports Complex_Main "HOL-Library.Sublist"
begin

chapter \<open>The embedding\<close>

section \<open>Strings\<close>

text \<open>
  Python strings are modelled as \<open>string\<close>, a list of 8-bit characters.
  \<open>startswith\<close> is \<open>str.startswith\<close> with one prefix; \<open>rstrip_char c\<close>
  is \<open>str.rstrip(c)\<close> for a one-character argument: it removes the whole
  trailing run of \<open>c\<close>.
\<close>

definition startswith :: "string \<Rightarrow> string \<Rightarrow> bool" where
  "startswith s p = (take (length p) s = p)"

definition rstrip_char :: "char \<Rightarrow> string \<Rightarrow> string" where
  "rstrip_char c s = rev (dropWhile (\<lambda>x. x = c) (rev s))"

section \<open>URL normalisation (\<open>ShopifyStoreScraper._normalize_url\<close>)\<close>

text \<open>
  \<^verbatim>\<open>
  def _normalize_url(self, url):
      if not url.startswith(('http://', 'https://')):
          url = 'https://' + url
      return url.rstrip('/')
  \<close>
\<close>

definition ensure_scheme :: "string \<Rightarrow> string" where
  "ensure_scheme url =
     (if \<not> (startswith url ''http://'' \<or> startswith url ''https://'')
      then ''https://'' @ url else url)"

definition normalize_url :: "string \<Rightarrow> string" where
  "normalize_url url = rstrip_char CHR ''/'' (ensure_scheme url)"

text \<open>
  The specification's wording, for comparison: the scheme is enforced and
  exactly one trailing slash is removed.
\<close>

definition strip_one_slash :: "string \<Rightarrow> string" where
  "strip_one_slash s = (if s \<noteq> [] \<and> last s = CHR ''/'' then butlast s else s)"

definition spec_normalize_url :: "string \<Rightarrow> string" where
  "spec_normalize_url url = strip_one_slash (ensure_scheme url)"

section \<open>The fetcher (\<open>HTTPClient\<close>)\<close>

text \<open>
  One attempt of \<open>session.get(url)\<close> ends in one of these ways: status 200
  with the body read (and, for \<open>get_json\<close>, decoded), status 404, another
  status, \<open>asyncio.TimeoutError\<close>, \<open>json.JSONDecodeError\<close>, or any other
  \<open>Exception\<close>. The network is a function from the attempt number to the
  outcome of that attempt. What the fetcher does besides returning a value is
  recorded as a trace: the requests it sends and the sleeps between them
  (\<open>asyncio.sleep(2 ** attempt)\<close>, in seconds).
\<close>

datatype 'a attempt =
    Ok200 'a
  | NotFound404
  | OtherStatus nat
  | TimeoutError
  | JSONDecodeError
  | OtherError

datatype event = Request nat | Sleep nat

text \<open>\<open>settings.MAX_RETRIES\<close>, the default of \<open>app/core/config.py\<close>.\<close>

definition MAX_RETRIES :: int where
  "MAX_RETRIES = 3"

text \<open>
  \<^verbatim>\<open>
  if attempt < retries:
      await asyncio.sleep(2 ** attempt)
  \<close>
\<close>

definition backoff :: "int \<Rightarrow> nat \<Rightarrow> event list" where
  "backoff retries attempt = (if int attempt < retries then [Sleep (2 ^ attempt)] else [])"

text \<open>
  \<open>get_page_content\<close>: the loop \<open>for attempt in range(retries + 1)\<close> over the
  attempts still to make. Status 200 returns the body and 404 returns \<open>None\<close>
  at once; every other outcome is logged, followed by the backoff and the next
  attempt. Leaving the loop returns \<open>None\<close>.
\<close>

fun page_loop :: "(nat \<Rightarrow> 'a attempt) \<Rightarrow> int \<Rightarrow> nat list \<Rightarrow> 'a option \<times> event list" where
  "page_loop w retries [] = (None, [])"
| "page_loop w retries (attempt # rest) =
     (case w attempt of
        Ok200 content \<Rightarrow> (Some content, [Request attempt])
      | NotFound404 \<Rightarrow> (None, [Request attempt])
      | _ \<Rightarrow>
          (let (r, evs) = page_loop w retries rest
           in (r, Request attempt # backoff retries attempt @ evs)))"

definition get_page_content ::
  "(nat \<Rightarrow> 'a attempt) \<Rightarrow> int option \<Rightarrow> 'a option \<times> event list" where
  "get_page_content w retries_arg =
     (let retries = (case retries_arg of None \<Rightarrow> MAX_RETRIES | Some r \<Rightarrow> r)
      in page_loop w retries [0..<nat (retries + 1)])"

text \<open>
  \<open>get_json\<close>. On status 200 it awaits \<open>response.json()\<close>, which aiohttp
  carries out in this order: a response whose \<open>Content-Type\<close> is not a JSON
  type raises \<open>ContentTypeError\<close>; a body that is not text in the response's
  charset raises \<open>UnicodeDecodeError\<close>; a text that is not JSON raises
  \<open>json.JSONDecodeError\<close>; otherwise the decoded value comes back. A
  response is what these steps depend on.
\<close>

datatype 'd payload = JsonBody 'd | InvalidJson | Undecodable

record 'd json_response =
  json_content_type :: bool
  payload :: "'d payload"

text \<open>
  How one attempt of \<open>get_json\<close> ends: with a \<open>return\<close>, or by going on
  to the backoff and the next attempt. The handlers are, in this order,
  \<^verbatim>\<open>
  except asyncio.TimeoutError:
      logger.warning(...)
  except json.JSONDecodeError:
      logger.warning(f"Invalid JSON from {url}")
      return None
  except Exception as e:
      logger.warning(...)
  \<close>
  so \<open>ContentTypeError\<close> and \<open>UnicodeDecodeError\<close>, which are not
  \<open>JSONDecodeError\<close>s, fall to the last one.
\<close>

datatype 'd step = Return "'d option" | NextAttempt

definition json_step :: "'d json_response attempt \<Rightarrow> 'd step" where
  "json_step a =
     (case a of
        Ok200 response \<Rightarrow>
          (if \<not> json_content_type response then NextAttempt
           else (case payload response of
                   JsonBody data \<Rightarrow> Return (Some data)
                 | InvalidJson \<Rightarrow> Return None
                 | Undecodable \<Rightarrow> NextAttempt))
      | NotFound404 \<Rightarrow> Return None
      | JSONDecodeError \<Rightarrow> Return None
      | _ \<Rightarrow> NextAttempt)"

fun json_loop ::
  "(nat \<Rightarrow> 'd json_response attempt) \<Rightarrow> int \<Rightarrow> nat list \<Rightarrow> 'd option \<times> event list" where
  "json_loop w retries [] = (None, [])"
| "json_loop w retries (attempt # rest) =
     (case json_step (w attempt) of
        Return r \<Rightarrow> (r, [Request attempt])
      | NextAttempt \<Rightarrow>
          (let (r, evs) = json_loop w retries rest
           in (r, Request attempt # backoff retries attempt @ evs)))"

definition get_json ::
  "(nat \<Rightarrow> 'd json_response attempt) \<Rightarrow> int option \<Rightarrow> 'd option \<times> event list" where
  "get_json w retries_arg =
     (let retries = (case retries_arg of None \<Rightarrow> MAX_RETRIES | Some r \<Rightarrow> r)
      in json_loop w retries [0..<nat (retries + 1)])"

text \<open>
  Two example endpoints. The first answers every request with status 200 and
  an HTML page (\<open>Content-Type: text/html\<close>), a body that does not decode as
  JSON. The second times out once and then answers with a JSON content type
  and a body that is not JSON.
\<close>

definition html_page_endpoint :: "nat \<Rightarrow> string json_response attempt" where
  "html_page_endpoint attempt = Ok200 \<lparr>json_content_type = False, payload = InvalidJson\<rparr>"

definition broken_json_endpoint :: "nat \<Rightarrow> string json_response attempt" where
  "broken_json_endpoint attempt =
     (if attempt = 0 then TimeoutError
      else Ok200 \<lparr>json_content_type = True, payload = InvalidJson\<rparr>)"

section \<open>JSON values and the Python operations on them\<close>

text \<open>
  A decoded JSON document, as \<open>json.loads\<close> builds it: \<open>None\<close>, a bool, a
  number, a string, a list, or a dict (its items, keys distinct). Numbers are
  exact rationals.
\<close>

datatype json =
    JNull
  | JBool bool
  | JNum rat
  | JStr string
  | JArr "json list"
  | JObj "(string \<times> json) list"

type_synonym py_dict = "(string \<times> json) list"

text \<open>Python truthiness, as \<open>if x\<close>, \<open>not x\<close> and \<open>any\<close> read a value.\<close>

fun truthy :: "json \<Rightarrow> bool" where
  "truthy JNull = False"
| "truthy (JBool b) = b"
| "truthy (JNum n) = (n \<noteq> 0)"
| "truthy (JStr s) = (s \<noteq> [])"
| "truthy (JArr xs) = (xs \<noteq> [])"
| "truthy (JObj kvs) = (kvs \<noteq> [])"

text \<open>\<open>d.get(key, default)\<close> on a dict.\<close>

definition dict_get :: "py_dict \<Rightarrow> string \<Rightarrow> json \<Rightarrow> json" where
  "dict_get d k dflt = (case map_of d k of None \<Rightarrow> dflt | Some v \<Rightarrow> v)"

text \<open>
  \<open>x.get(key, default)\<close> on any value: only a dict has \<open>get\<close>; on every
  other value the call raises \<open>AttributeError\<close>, which is \<open>None\<close> here.
\<close>

fun obj_get :: "json \<Rightarrow> string \<Rightarrow> json \<Rightarrow> json option" where
  "obj_get (JObj d) k dflt = Some (dict_get d k dflt)"
| "obj_get _ k dflt = None"

text \<open>
  \<open>for x in v\<close>: a list yields its elements, a dict its keys, a string its
  characters; \<open>None\<close>, a bool and a number raise \<open>TypeError\<close> (\<open>None\<close> here).
\<close>

fun py_iter :: "json \<Rightarrow> json list option" where
  "py_iter (JArr xs) = Some xs"
| "py_iter (JObj kvs) = Some (map (\<lambda>kv. JStr (fst kv)) kvs)"
| "py_iter (JStr s) = Some (map (\<lambda>c. JStr [c]) s)"
| "py_iter _ = None"

text \<open>\<open>s.split(c)\<close> for a one-character separator.\<close>

fun split_on :: "char \<Rightarrow> string \<Rightarrow> string list" where
  "split_on c [] = [[]]"
| "split_on c (x # xs) =
     (if x = c then [] # split_on c xs
      else (case split_on c xs of [] \<Rightarrow> [[x]] | y # ys \<Rightarrow> (x # y) # ys))"

section \<open>The schemas (\<open>app/models/schemas.py\<close>)\<close>

record product =
  product_id :: "string option"
  title :: string
  handle :: "string option"
  description :: "string option"
  price :: "string option"
  compare_at_price :: "string option"
  vendor :: "string option"
  product_type :: "string option"
  tags :: "string list"
  images :: "string list"
  variants :: "py_dict list"
  available :: bool
  url :: "string option"

record faq =
  question :: string
  answer :: string
  category :: "string option"

record social_handles =
  instagram :: "string option"
  facebook :: "string option"
  twitter :: "string option"
  tiktok :: "string option"
  youtube :: "string option"
  linkedin :: "string option"
  pinterest :: "string option"

record contact_details =
  emails :: "string list"
  phone_numbers :: "string list"
  address :: "string option"
  support_hours :: "string option"

record important_links =
  order_tracking :: "string option"
  contact_us :: "string option"
  blogs :: "string option"
  size_guide :: "string option"
  shipping_info :: "string option"
  careers :: "string option"
  about_us :: "string option"

record policy =
  content :: string
  policy_url :: "string option"
  last_updated :: "string option"

record brand_insights =
  brand_name :: "string option"
  website_url :: string
  product_catalog :: "product list"
  hero_products :: "product list"
  privacy_policy :: "policy option"
  return_policy :: "policy option"
  refund_policy :: "policy option"
  terms_of_service :: "policy option"
  faqs :: "faq list"
  social_handles :: social_handles
  contact_details :: contact_details
  brand_context :: "string option"
  important_links :: important_links
  extraction_timestamp :: nat

text \<open>The schemas' defaults: \<open>SocialHandlesSchema()\<close> and its siblings.\<close>

definition SocialHandlesSchema :: social_handles where
  "SocialHandlesSchema = \<lparr>instagram = None, facebook = None, twitter = None, tiktok = None,
     youtube = None, linkedin = None, pinterest = None\<rparr>"

definition ContactDetailsSchema :: contact_details where
  "ContactDetailsSchema = \<lparr>emails = [], phone_numbers = [], address = None,
     support_hours = None\<rparr>"

definition ImportantLinksSchema :: important_links where
  "ImportantLinksSchema = \<lparr>order_tracking = None, contact_us = None, blogs = None,
     size_guide = None, shipping_info = None, careers = None, about_us = None\<rparr>"

text \<open>
  Library functions the parsers call, taken as parameters: \<open>str()\<close> of a JSON
  value (also what an f-string inserts), \<open>urllib.parse.urljoin\<close>, what
  pydantic does with a value that is not a string where the schema declares
  \<open>str\<close> (\<open>Some s\<close> when it converts the value to \<open>s\<close>, \<open>None\<close> when it
  raises a validation error), and \<open>validators.url\<close>, as \<open>validate_url\<close> of
  \<open>app/utils/validators.py\<close> reads it.
\<close>

record lib =
  py_str :: "json \<Rightarrow> string"
  urljoin :: "string \<Rightarrow> string \<Rightarrow> string"
  coerce_str :: "json \<Rightarrow> string option"
  validate_url :: "string \<Rightarrow> bool"

text \<open>Validation of a field declared \<open>str\<close>, and of one declared \<open>Optional[str]\<close>.\<close>

definition validate_str :: "lib \<Rightarrow> json \<Rightarrow> string option" where
  "validate_str L v = (case v of JStr s \<Rightarrow> Some s | _ \<Rightarrow> coerce_str L v)"

definition validate_opt_str :: "lib \<Rightarrow> json \<Rightarrow> string option option" where
  "validate_opt_str L v =
     (case v of JNull \<Rightarrow> Some None | _ \<Rightarrow> map_option Some (validate_str L v))"

section \<open>Catalog parsing (\<open>ProductExtractor._parse_product_json\<close>)\<close>

text \<open>
  The whole body runs under \<open>try: ... except Exception: return None\<close>, so
  every raise of the source is the result \<open>None\<close>.
  \<^verbatim>\<open>
  images = [img.get('src', '') for img in product_data['images'] if img.get('src')]
  \<close>
\<close>

fun image_srcs :: "json list \<Rightarrow> json list option" where
  "image_srcs [] = Some []"
| "image_srcs (img # rest) =
     (case obj_get img ''src'' JNull of
        None \<Rightarrow> None
      | Some c \<Rightarrow>
          if truthy c
          then (case obj_get img ''src'' (JStr '''') of
                  None \<Rightarrow> None
                | Some s \<Rightarrow> map_option ((#) s) (image_srcs rest))
          else image_srcs rest)"

text \<open>
  \<^verbatim>\<open>
  for variant in product_data['variants']:
      variants.append({
          'id': variant.get('id'),
          'title': variant.get('title'),
          'price': variant.get('price'),
          'available': variant.get('available', True),
          'sku': variant.get('sku')
      })
  \<close>
\<close>

fun build_variants :: "json list \<Rightarrow> py_dict list option" where
  "build_variants [] = Some []"
| "build_variants (variant # rest) =
     (case variant of
        JObj d \<Rightarrow>
          map_option
            ((#) [(''id'', dict_get d ''id'' JNull),
                  (''title'', dict_get d ''title'' JNull),
                  (''price'', dict_get d ''price'' JNull),
                  (''available'', dict_get d ''available'' (JBool True)),
                  (''sku'', dict_get d ''sku'' JNull)])
            (build_variants rest)
      | _ \<Rightarrow> None)"

text \<open>\<open>for x in product_data[key]\<close> when the key is there, nothing otherwise.\<close>

definition iter_key :: "py_dict \<Rightarrow> string \<Rightarrow> json list option" where
  "iter_key product_data k =
     (case map_of product_data k of None \<Rightarrow> Some [] | Some v \<Rightarrow> py_iter v)"

text \<open>
  \<^verbatim>\<open>
  tags=product_data.get('tags', '').split(',') if product_data.get('tags') else []
  \<close>
  Only a string has \<open>split\<close>.
\<close>

definition parse_tags :: "py_dict \<Rightarrow> string list option" where
  "parse_tags product_data =
     (if truthy (dict_get product_data ''tags'' JNull)
      then (case dict_get product_data ''tags'' (JStr '''') of
              JStr s \<Rightarrow> Some (split_on CHR '','' s)
            | _ \<Rightarrow> None)
      else Some [])"

text \<open>
  \<^verbatim>\<open>
  available=any(v.get('available', False) for v in variants) if variants else True
  \<close>
\<close>

definition any_available :: "py_dict list \<Rightarrow> bool" where
  "any_available vs =
     (if vs \<noteq> [] then list_ex (\<lambda>v. truthy (dict_get v ''available'' (JBool False))) vs
      else True)"

text \<open>
  \<^verbatim>\<open>
  if variants:
      price = variants[0].get('price')
      compare_at_price = variants[0].get('compare_at_price')
  \<close>
\<close>

definition first_variant_get :: "py_dict list \<Rightarrow> string \<Rightarrow> json" where
  "first_variant_get vs k = (case vs of [] \<Rightarrow> JNull | v # _ \<Rightarrow> dict_get v k JNull)"

definition parse_product_json :: "lib \<Rightarrow> py_dict \<Rightarrow> string \<Rightarrow> product option" where
  "parse_product_json L product_data base_url =
     (case Option.bind (iter_key product_data ''images'') image_srcs of
        None \<Rightarrow> None
      | Some imgs \<Rightarrow>
     (case Option.bind (iter_key product_data ''variants'') build_variants of
        None \<Rightarrow> None
      | Some vs \<Rightarrow>
     (case validate_str L (dict_get product_data ''title'' (JStr '''')) of
        None \<Rightarrow> None
      | Some title_v \<Rightarrow>
     (case validate_opt_str L (dict_get product_data ''handle'' (JStr '''')) of
        None \<Rightarrow> None
      | Some handle_v \<Rightarrow>
     (case validate_opt_str L (dict_get product_data ''body_html'' (JStr '''')) of
        None \<Rightarrow> None
      | Some description_v \<Rightarrow>
     (case validate_opt_str L (first_variant_get vs ''price'') of
        None \<Rightarrow> None
      | Some price_v \<Rightarrow>
     (case validate_opt_str L (first_variant_get vs ''compare_at_price'') of
        None \<Rightarrow> None
      | Some compare_v \<Rightarrow>
     (case validate_opt_str L (dict_get product_data ''vendor'' (JStr '''')) of
        None \<Rightarrow> None
      | Some vendor_v \<Rightarrow>
     (case validate_opt_str L (dict_get product_data ''product_type'' (JStr '''')) of
        None \<Rightarrow> None
      | Some type_v \<Rightarrow>
     (case parse_tags product_data of
        None \<Rightarrow> None
      | Some tags_v \<Rightarrow>
     (case those (map (validate_str L) imgs) of
        None \<Rightarrow> None
      | Some images_v \<Rightarrow>
          Some \<lparr>product_id = Some (py_str L (dict_get product_data ''id'' (JStr ''''))),
                title = title_v,
                handle = handle_v,
                description = description_v,
                price = price_v,
                compare_at_price = compare_v,
                vendor = vendor_v,
                product_type = type_v,
                tags = tags_v,
                images = images_v,
                variants = vs,
                available = any_available vs,
                url = Some (urljoin L base_url
                  (''/products/'' @ py_str L (dict_get product_data ''handle'' (JStr ''''))))\<rparr>
     )))))))))))"

text \<open>
  What the claim about availability speaks of, in the source document's own
  terms: the product's variant objects, and whether one of them is available
  (its flag is true, or it has no flag).
\<close>

definition source_variants :: "py_dict \<Rightarrow> json list" where
  "source_variants product_data =
     (case map_of product_data ''variants'' of
        None \<Rightarrow> []
      | Some v \<Rightarrow> (case py_iter v of None \<Rightarrow> [] | Some xs \<Rightarrow> xs))"

definition variant_flag_true :: "json \<Rightarrow> bool" where
  "variant_flag_true v =
     (case v of
        JObj d \<Rightarrow> (case map_of d ''available'' of None \<Rightarrow> True | Some f \<Rightarrow> truthy f)
      | _ \<Rightarrow> False)"

definition variant_price :: "json \<Rightarrow> json" where
  "variant_price v =
     (case v of
        JObj d \<Rightarrow> (case map_of d ''price'' of None \<Rightarrow> JNull | Some p \<Rightarrow> p)
      | _ \<Rightarrow> JNull)"

text \<open>An example catalog item and library, for the evaluation of the parser.\<close>

definition example_lib :: lib where
  "example_lib = \<lparr>py_str = (\<lambda>v. case v of JStr s \<Rightarrow> s | _ \<Rightarrow> ''12345''),
     urljoin = (\<lambda>b p. b @ p), coerce_str = (\<lambda>_. None),
     validate_url = (\<lambda>u. startswith u ''http://'' \<or> startswith u ''https://'')\<rparr>"

definition example_product_data :: py_dict where
  "example_product_data =
    [(''id'', JNum 12345), (''title'', JStr ''Test Product''),
     (''handle'', JStr ''test-product''),
     (''variants'',
        JArr [JObj [(''id'', JNum 1), (''price'', JStr ''29.99''), (''available'', JBool False)],
              JObj [(''id'', JNum 2), (''price'', JStr ''39.99''), (''available'', JBool True)]])]"

section \<open>The similarity scorer (\<open>CompetitorAnalyzer._calculate_similarity\<close>)\<close>

text \<open>
  \<open>str.lower\<close>. A string is a sequence of code points below 256. Of these
  \<open>str.lower\<close> sends the letters \<open>A\<close> to \<open>Z\<close> and the capital letters
  U+00C0 to U+00DE (all of that range but the multiplication sign U+00D7) to
  the code point 32 above, and keeps every other one.
\<close>

definition upper_letters :: string where
  "upper_letters = ''ABCDEFGHIJKLMNOPQRSTUVWXYZ''
     @ [CHR 0xC0, CHR 0xC1, CHR 0xC2, CHR 0xC3, CHR 0xC4, CHR 0xC5, CHR 0xC6, CHR 0xC7,
        CHR 0xC8, CHR 0xC9, CHR 0xCA, CHR 0xCB, CHR 0xCC, CHR 0xCD, CHR 0xCE, CHR 0xCF,
        CHR 0xD0, CHR 0xD1, CHR 0xD2, CHR 0xD3, CHR 0xD4, CHR 0xD5, CHR 0xD6,
        CHR 0xD8, CHR 0xD9, CHR 0xDA, CHR 0xDB, CHR 0xDC, CHR 0xDD, CHR 0xDE]"

definition lower_letters :: string where
  "lower_letters = ''abcdefghijklmnopqrstuvwxyz''
     @ [CHR 0xE0, CHR 0xE1, CHR 0xE2, CHR 0xE3, CHR 0xE4, CHR 0xE5, CHR 0xE6, CHR 0xE7,
        CHR 0xE8, CHR 0xE9, CHR 0xEA, CHR 0xEB, CHR 0xEC, CHR 0xED, CHR 0xEE, CHR 0xEF,
        CHR 0xF0, CHR 0xF1, CHR 0xF2, CHR 0xF3, CHR 0xF4, CHR 0xF5, CHR 0xF6,
        CHR 0xF8, CHR 0xF9, CHR 0xFA, CHR 0xFB, CHR 0xFC, CHR 0xFD, CHR 0xFE]"

definition lower_char :: "char \<Rightarrow> char" where
  "lower_char c =
     (case map_of (zip upper_letters lower_letters) c of
        None \<Rightarrow> c
      | Some l \<Rightarrow> l)"

definition lower :: "string \<Rightarrow> string" where
  "lower s = map lower_char s"

text \<open>
  \<^verbatim>\<open>
  set(p.product_type.lower() for p in catalog if p.product_type)
  \<close>
  \<open>if p.product_type\<close> drops \<open>None\<close> and the empty string.
\<close>

definition product_types :: "product list \<Rightarrow> string set" where
  "product_types catalog =
     set (map (\<lambda>p. lower (the (product_type p)))
       (filter (\<lambda>p. case product_type p of None \<Rightarrow> False | Some t \<Rightarrow> t \<noteq> []) catalog))"

text \<open>
  \<^verbatim>\<open>
  main_social = main_brand.social_handles.dict() if main_brand.social_handles else {}
  main_platforms = sum(1 for v in main_social.values() if v)
  \<close>
  A schema object is always true, so the dict always holds the seven fields.
\<close>

definition platform_values :: "social_handles \<Rightarrow> string option list" where
  "platform_values s =
     [instagram s, facebook s, twitter s, tiktok s, youtube s, linkedin s, pinterest s]"

definition count_platforms :: "social_handles \<Rightarrow> nat" where
  "count_platforms s =
     length (filter (\<lambda>v. case v of None \<Rightarrow> False | Some h \<Rightarrow> h \<noteq> []) (platform_values s))"

text \<open>
  The function threads \<open>score\<close> and \<open>total_factors\<close> through three
  conditional updates. The score is a Python float, here an exact rational.
\<close>

definition add_type_overlap :: "product list \<Rightarrow> product list \<Rightarrow> rat \<times> nat \<Rightarrow> rat \<times> nat" where
  "add_type_overlap main_catalog comp_catalog st =
     (if main_catalog \<noteq> [] \<and> comp_catalog \<noteq> [] then
        (let main_types = product_types main_catalog;
             comp_types = product_types comp_catalog
         in if main_types \<noteq> {} \<and> comp_types \<noteq> {} then
              (let overlap = card (main_types \<inter> comp_types);
                   union = card (main_types \<union> comp_types)
               in (fst st + (if union > 0 then of_nat overlap / of_nat union else 0),
                   snd st + 1))
            else st)
      else st)"

definition add_social_ratio :: "nat \<Rightarrow> nat \<Rightarrow> rat \<times> nat \<Rightarrow> rat \<times> nat" where
  "add_social_ratio main_platforms comp_platforms st =
     (if main_platforms > 0 \<and> comp_platforms > 0 then
        (fst st + of_nat (min main_platforms comp_platforms)
                   / of_nat (max main_platforms comp_platforms),
         snd st + 1)
      else st)"

definition add_count_ratio :: "nat \<Rightarrow> nat \<Rightarrow> rat \<times> nat \<Rightarrow> rat \<times> nat" where
  "add_count_ratio main_product_count comp_product_count st =
     (if main_product_count > 0 \<and> comp_product_count > 0 then
        (let ratio = of_nat (min main_product_count comp_product_count)
                       / of_nat (max main_product_count comp_product_count)
         in (fst st + ratio, snd st + 1))
      else st)"

definition calculate_similarity :: "brand_insights \<Rightarrow> brand_insights \<Rightarrow> rat" where
  "calculate_similarity main_brand competitor =
     (let st = (0, 0);
          st = add_type_overlap (product_catalog main_brand) (product_catalog competitor) st;
          main_platforms = count_platforms (social_handles main_brand);
          comp_platforms = count_platforms (social_handles competitor);
          st = add_social_ratio main_platforms comp_platforms st;
          main_product_count = length (product_catalog main_brand);
          comp_product_count = length (product_catalog competitor);
          st = add_count_ratio main_product_count comp_product_count st;
          score = fst st;
          total_factors = snd st
      in if total_factors > 0 then score / of_nat total_factors else 0)"

text \<open>
  The specification's wording, for comparison, written without the functions
  above. The product-type set of a catalog holds the lower-cased product type
  of every product that has one; the Jaccard index of two sets is the size of
  their intersection over the size of their union. The counted platforms of a
  record are the platforms for which it holds a handle. A signal is there only
  when both sides have nonzero data for it, and the score is the unweighted
  mean of the signals that are there.
\<close>

definition type_set :: "product list \<Rightarrow> string set" where
  "type_set catalog =
     (\<Union>p\<in>set catalog.
        case product_type p of None \<Rightarrow> {} | Some t \<Rightarrow> if t = [] then {} else {lower t})"

definition jaccard_index :: "string set \<Rightarrow> string set \<Rightarrow> rat" where
  "jaccard_index A B = of_nat (card (A \<inter> B)) / of_nat (card (A \<union> B))"

definition platform_count :: "social_handles \<Rightarrow> nat" where
  "platform_count s =
     (\<Sum>field \<leftarrow> [instagram, facebook, twitter, tiktok, youtube, linkedin, pinterest].
        case field s of None \<Rightarrow> 0 | Some h \<Rightarrow> if h = [] then 0 else 1)"

definition min_max_ratio :: "nat \<Rightarrow> nat \<Rightarrow> rat" where
  "min_max_ratio m n = of_nat (min m n) / of_nat (max m n)"

definition jaccard_signal :: "brand_insights \<Rightarrow> brand_insights \<Rightarrow> rat option" where
  "jaccard_signal a b =
     (let ta = type_set (product_catalog a); tb = type_set (product_catalog b)
      in if ta \<noteq> {} \<and> tb \<noteq> {} then Some (jaccard_index ta tb) else None)"

definition social_signal :: "brand_insights \<Rightarrow> brand_insights \<Rightarrow> rat option" where
  "social_signal a b =
     (let na = platform_count (social_handles a); nb = platform_count (social_handles b)
      in if na \<noteq> 0 \<and> nb \<noteq> 0 then Some (min_max_ratio na nb) else None)"

definition size_signal :: "brand_insights \<Rightarrow> brand_insights \<Rightarrow> rat option" where
  "size_signal a b =
     (let na = length (product_catalog a); nb = length (product_catalog b)
      in if na \<noteq> 0 \<and> nb \<noteq> 0 then Some (min_max_ratio na nb) else None)"

definition comparable_signals :: "brand_insights \<Rightarrow> brand_insights \<Rightarrow> rat list" where
  "comparable_signals a b =
     concat (map (\<lambda>s. case s of None \<Rightarrow> [] | Some x \<Rightarrow> [x])
       [jaccard_signal a b, social_signal a b, size_signal a b])"

definition unweighted_mean :: "rat list \<Rightarrow> rat" where
  "unweighted_mean xs = (if xs = [] then 0 else sum_list xs / of_nat (length xs))"

text \<open>
  Example records: a product that only has a title and a product type, and a
  brand that only has a catalog and one Instagram handle.
\<close>

definition typed_product :: "string \<Rightarrow> string \<Rightarrow> product" where
  "typed_product t ty =
     \<lparr>product_id = None, title = t, handle = None, description = None, price = None,
      compare_at_price = None, vendor = None, product_type = Some ty, tags = [], images = [],
      variants = [], available = True, url = None\<rparr>"

definition small_brand :: "string \<Rightarrow> product list \<Rightarrow> string option \<Rightarrow> brand_insights" where
  "small_brand u catalog ig =
     \<lparr>brand_name = None, website_url = u, product_catalog = catalog, hero_products = [],
      privacy_policy = None, return_policy = None, refund_policy = None,
      terms_of_service = None, faqs = [],
      social_handles = SocialHandlesSchema\<lparr>instagram := ig\<rparr>,
      contact_details = ContactDetailsSchema, brand_context = None,
      important_links = ImportantLinksSchema, extraction_timestamp = 0\<rparr>"

text \<open>
  Two stores with two products each, which share one product type up to case,
  the first with one platform and the second with two; and two stores whose
  only product type is the same word in capitals and in small letters.
\<close>

definition store_a :: brand_insights where
  "store_a =
     small_brand ''https://a.example''
       [typed_product ''Tee'' ''Shirts'', typed_product ''Cap'' ''Hats''] (Some ''store_a'')"

definition store_b :: brand_insights where
  "store_b =
     (small_brand ''https://b.example''
        [typed_product ''Top'' ''shirts'', typed_product ''Boot'' ''Shoes''] None)
       \<lparr>social_handles :=
          SocialHandlesSchema\<lparr>facebook := Some ''store_b'', tiktok := Some ''store_b''\<rparr>\<rparr>"

definition cafe_upper :: brand_insights where
  "cafe_upper =
     small_brand ''https://c.example''
       [typed_product ''Beans'' [CHR ''C'', CHR ''A'', CHR ''F'', CHR 0xC9]] (Some ''c'')"

definition cafe_lower :: brand_insights where
  "cafe_lower =
     small_brand ''https://d.example''
       [typed_product ''Roast'' [CHR ''c'', CHR ''a'', CHR ''f'', CHR 0xE9]] (Some ''d'')"

section \<open>The basic summary (\<open>CompetitorAnalyzer._generate_basic_summary\<close>)\<close>

text \<open>
  Exceptions, as values: \<open>TypeError\<close>, \<open>AttributeError\<close>, pydantic's
  \<open>ValidationError\<close>, \<open>asyncio.CancelledError\<close>, or any other
  \<open>Exception\<close> with its message.
\<close>

datatype py_exception =
    TypeError
  | AttributeError
  | ValidationError
  | CancelledError
  | OtherException string

record competitor =
  competitor_name :: "string option"
  competitor_url :: string
  insights :: brand_insights
  similarity_score :: "rat option"
  competitive_advantages :: "string list"

text \<open>Formatting: \<open>str\<close> of a length, and \<open>{x:.2f}\<close> of a score.\<close>

fun str_nat :: "nat \<Rightarrow> string" where
  "str_nat n =
     (if n < 10 then [''0123456789'' ! n]
      else str_nat (n div 10) @ [''0123456789'' ! (n mod 10)])"

definition round_half_even :: "rat \<Rightarrow> int" where
  "round_half_even x =
     (let f = \<lfloor>x\<rfloor>; d = x - of_int f
      in if d < 1 / 2 then f else if 1 / 2 < d then f + 1 else if even f then f else f + 1)"

definition format_2f :: "rat \<Rightarrow> string" where
  "format_2f x =
     (let n = nat (round_half_even (\<bar>x\<bar> * 100))
      in (if x < 0 then ''-'' else '''') @ str_nat (n div 100) @ ''.''
           @ [''0123456789'' ! (n div 10 mod 10), ''0123456789'' ! (n mod 10)])"

text \<open>\<open>x or default\<close> on an optional string and on an optional score.\<close>

definition or_str :: "string option \<Rightarrow> string \<Rightarrow> string" where
  "or_str x dflt = (case x of None \<Rightarrow> dflt | Some s \<Rightarrow> if s = [] then dflt else s)"

definition or_zero :: "rat option \<Rightarrow> rat" where
  "or_zero x = (case x of None \<Rightarrow> 0 | Some s \<Rightarrow> s)"

text \<open>\<open>max(xs, key=k)\<close> on a non-empty list: the first element with the largest key.\<close>

fun max_by :: "('a \<Rightarrow> rat) \<Rightarrow> 'a \<Rightarrow> 'a list \<Rightarrow> 'a" where
  "max_by k best [] = best"
| "max_by k best (x # xs) = max_by k (if k best < k x then x else best) xs"

text \<open>
  The string that the body assembles in its local variable \<open>summary\<close> when the
  list is not empty. \<open>{top_competitor.similarity_score:.2f}\<close> raises
  \<open>TypeError\<close> on \<open>None\<close>.
  \<^verbatim>\<open>
  avg_similarity = sum(c.similarity_score or 0 for c in competitors) / len(competitors)
  summary = f"Analyzed {len(competitors)} competitors for {main_brand.brand_name or 'the brand'}. "
  summary += f"Average similarity score: {avg_similarity:.2f}. "
  if competitors:
      top_competitor = max(competitors, key=lambda c: c.similarity_score or 0)
      summary += f"Most similar competitor: {top_competitor.competitor_name or 'Unknown'} "
      summary += f"with similarity score of {top_competitor.similarity_score:.2f}."
  \<close>
\<close>

definition assemble_summary :: "brand_insights \<Rightarrow> competitor list \<Rightarrow> py_exception + string" where
  "assemble_summary main_brand competitors =
     (let avg_similarity =
            sum_list (map (\<lambda>c. or_zero (similarity_score c)) competitors)
              / of_nat (length competitors);
          summary = ''Analyzed '' @ str_nat (length competitors) @ '' competitors for ''
                      @ or_str (brand_name main_brand) ''the brand'' @ ''. '';
          summary = summary @ ''Average similarity score: '' @ format_2f avg_similarity @ ''. ''
      in case competitors of
           [] \<Rightarrow> Inr summary
         | c # cs \<Rightarrow>
             (let top_competitor = max_by (\<lambda>c. or_zero (similarity_score c)) c cs;
                  summary = summary @ ''Most similar competitor: ''
                              @ or_str (competitor_name top_competitor) ''Unknown'' @ '' ''
              in case similarity_score top_competitor of
                   None \<Rightarrow> Inl TypeError
                 | Some s \<Rightarrow> Inr (summary @ ''with similarity score of '' @ format_2f s @ ''.'')))"

text \<open>
  The function itself: the early \<open>return\<close> for the empty list, and otherwise
  the assembly above, after which the body ends without a \<open>return\<close>
  statement, so the call evaluates to \<open>None\<close>.
\<close>

definition generate_basic_summary ::
  "brand_insights \<Rightarrow> competitor list \<Rightarrow> py_exception + string option" where
  "generate_basic_summary main_brand competitors =
     (if competitors = []
      then Inr (Some (''No competitors found for analysis of ''
                        @ or_str (brand_name main_brand) ''the brand'' @ ''.''))
      else (case assemble_summary main_brand competitors of
              Inl e \<Rightarrow> Inl e
            | Inr summary \<Rightarrow> Inr None))"

text \<open>An example competitor list of one entry.\<close>

definition example_competitor :: competitor where
  "example_competitor =
     \<lparr>competitor_name = Some ''Gymshark'', competitor_url = ''https://gymshark.com'',
      insights = small_brand ''https://gymshark.com'' [] None,
      similarity_score = Some (3 / 4), competitive_advantages = []\<rparr>"

section \<open>The FAQ extractor (\<open>FAQExtractor\<close>) and its enrichment (\<open>LLMProcessor.structure_faqs\<close>)\<close>

text \<open>
  What \<open>_parse_faq_page\<close> reads of a parsed page: for every element matching
  \<open>.faq, .question, .accordion-item, .faq-item\<close> the stripped text of its
  question element and of its answer element (\<open>None\<close> where \<open>select_one\<close>
  finds nothing), and for every \<open>h3\<close>/\<open>h4\<close> its stripped text and the
  stripped text of its next \<open>p\<close>/\<open>div\<close> sibling.
\<close>

record faq_soup =
  faq_containers :: "(string option \<times> string option) list"
  question_headers :: "(string \<times> string option) list"

definition FAQSchema :: "string \<Rightarrow> string \<Rightarrow> string option \<Rightarrow> faq" where
  "FAQSchema q a c = \<lparr>question = q, answer = a, category = c\<rparr>"

text \<open>Method 1: the structured elements with a non-empty question and answer.\<close>

definition container_faq :: "string option \<times> string option \<Rightarrow> faq option" where
  "container_faq c =
     (case c of
        (Some q, Some a) \<Rightarrow> if q \<noteq> [] \<and> a \<noteq> [] then Some (FAQSchema q a None) else None
      | _ \<Rightarrow> None)"

text \<open>
  Method 2: the headings that contain a question mark, with a following block
  of more than ten characters.
\<close>

definition header_faq :: "string \<times> string option \<Rightarrow> faq option" where
  "header_faq h =
     (case h of
        (q, Some a) \<Rightarrow>
          if CHR ''?'' \<in> set q \<and> a \<noteq> [] \<and> 10 < length a then Some (FAQSchema q a None)
          else None
      | _ \<Rightarrow> None)"

definition parse_faq_page :: "faq_soup \<Rightarrow> faq list" where
  "parse_faq_page soup =
     (let found = List.map_filter container_faq (faq_containers soup)
      in if found = [] then List.map_filter header_faq (question_headers soup) else found)"

text \<open>
  The loop over the candidate paths. \<open>net\<close> is the network (the outcome of
  each attempt at each URL) and \<open>soup_of\<close> is \<open>BeautifulSoup\<close> with the
  selectors above, \<open>None\<close> where it raises. A page without content and a
  raise both go on to the next path; the first page that leaves the list
  non-empty ends the loop.
\<close>

definition faq_urls :: "string list" where
  "faq_urls = [''/pages/faq'', ''/pages/frequently-asked-questions'', ''/faq'', ''/help'',
     ''/support'']"

fun faq_loop ::
  "lib \<Rightarrow> (string \<Rightarrow> nat \<Rightarrow> string attempt) \<Rightarrow> (string \<Rightarrow> faq_soup option) \<Rightarrow> string
    \<Rightarrow> string list \<Rightarrow> faq list \<Rightarrow> faq list" where
  "faq_loop L net soup_of base_url [] found = found"
| "faq_loop L net soup_of base_url (url_pattern # rest) found =
     (case fst (get_page_content (net (urljoin L base_url url_pattern)) None) of
        None \<Rightarrow> faq_loop L net soup_of base_url rest found
      | Some page \<Rightarrow>
          if page = [] then faq_loop L net soup_of base_url rest found
          else (case soup_of page of
                  None \<Rightarrow> faq_loop L net soup_of base_url rest found
                | Some soup \<Rightarrow>
                    (let found = found @ parse_faq_page soup
                     in if found \<noteq> [] then found
                        else faq_loop L net soup_of base_url rest found)))"

text \<open>
  The enrichment client, when there is one: what becomes of the completion for
  a list of FAQs. The call, the access to the completion's text or
  \<open>json.loads\<close> raise; or the text has no match of \<open>\[.*\]\<close>; or the match
  decodes to a JSON list.
\<close>

datatype completion = CompletionRaises | NoJsonArray | JsonArray "json list"

type_synonym llm_client = "faq list \<Rightarrow> completion"

text \<open>
  \<^verbatim>\<open>
  for item in structured_data:
      if isinstance(item, dict) and 'question' in item and 'answer' in item:
          structured_faqs.append(FAQSchema(
              question=item['question'],
              answer=item['answer'],
              category=item.get('category')))
  \<close>
  A value the schema rejects raises, which is \<open>None\<close> here.
\<close>

fun structured_items :: "lib \<Rightarrow> json list \<Rightarrow> faq list option" where
  "structured_items L [] = Some []"
| "structured_items L (item # rest) =
     (case item of
        JObj d \<Rightarrow>
          (case (map_of d ''question'', map_of d ''answer'') of
             (Some q, Some a) \<Rightarrow>
               (case (validate_str L q, validate_str L a,
                      validate_opt_str L (dict_get d ''category'' JNull)) of
                  (Some q', Some a', Some c') \<Rightarrow>
                    map_option ((#) (FAQSchema q' a' c')) (structured_items L rest)
                | _ \<Rightarrow> None)
           | _ \<Rightarrow> structured_items L rest)
      | _ \<Rightarrow> structured_items L rest)"

text \<open>
  \<open>structure_faqs\<close>: without a client or without FAQs the input comes back;
  so it does after any raise and when the completion holds no JSON list.
\<close>

definition structure_faqs :: "lib \<Rightarrow> llm_client option \<Rightarrow> faq list \<Rightarrow> faq list" where
  "structure_faqs L client raw_faqs =
     (case client of
        None \<Rightarrow> raw_faqs
      | Some ask \<Rightarrow>
          if raw_faqs = [] then raw_faqs
          else (case ask raw_faqs of
                  CompletionRaises \<Rightarrow> raw_faqs
                | NoJsonArray \<Rightarrow> raw_faqs
                | JsonArray structured_data \<Rightarrow>
                    (case structured_items L structured_data of
                       None \<Rightarrow> raw_faqs
                     | Some structured_faqs \<Rightarrow> structured_faqs)))"

text \<open>
  \<^verbatim>\<open>
  if faqs and self.llm_processor.is_available():
      faqs = await self.llm_processor.structure_faqs(faqs)
  return faqs[:20]
  \<close>
\<close>

definition parsed_faqs ::
  "lib \<Rightarrow> (string \<Rightarrow> nat \<Rightarrow> string attempt) \<Rightarrow> (string \<Rightarrow> faq_soup option) \<Rightarrow> string
    \<Rightarrow> faq list" where
  "parsed_faqs L net soup_of base_url = faq_loop L net soup_of base_url faq_urls []"

definition extract_faqs ::
  "lib \<Rightarrow> (string \<Rightarrow> nat \<Rightarrow> string attempt) \<Rightarrow> (string \<Rightarrow> faq_soup option)
    \<Rightarrow> llm_client option \<Rightarrow> string \<Rightarrow> faq list" where
  "extract_faqs L net soup_of client base_url =
     (let found = parsed_faqs L net soup_of base_url;
          found = (if found \<noteq> [] \<and> client \<noteq> None then structure_faqs L client found
                   else found)
      in take 20 found)"

text \<open>
  An example store: its \<open>/pages/faq\<close> page answers at once and holds thirty
  question/answer elements; every other request times out.
\<close>

definition thirty_faq_soup :: faq_soup where
  "thirty_faq_soup =
     \<lparr>faq_containers = replicate 30 (Some ''Do you ship?'', Some ''Yes.''),
      question_headers = []\<rparr>"

definition faq_net :: "string \<Rightarrow> nat \<Rightarrow> string attempt" where
  "faq_net u attempt =
     (if u = ''https://shop.example/pages/faq'' then Ok200 ''<html>faq</html>''
      else TimeoutError)"

definition faq_soup_of :: "string \<Rightarrow> faq_soup option" where
  "faq_soup_of page = Some thirty_faq_soup"

text \<open>An enrichment client whose completion always decodes to the empty list.\<close>

definition empty_completion :: llm_client where
  "empty_completion raw = JsonArray []"

section \<open>Validators (\<open>app/utils/validators.py\<close>) and the contact extractor\<close>

text \<open>
  Character classes of the regular expressions, on the code points below 256:
  \<open>\s\<close>, \<open>\d\<close>, \<open>[a-zA-Z]\<close>, \<open>[a-zA-Z0-9._%+-]\<close> and \<open>[a-zA-Z0-9.-]\<close>.
\<close>

definition is_space :: "char \<Rightarrow> bool" where
  "is_space c = ((of_char c :: nat) \<in> set [9, 10, 11, 12, 13, 28, 29, 30, 31, 32, 133, 160])"

definition is_digit :: "char \<Rightarrow> bool" where
  "is_digit c = (c \<in> set ''0123456789'')"

definition is_alpha :: "char \<Rightarrow> bool" where
  "is_alpha c = (c \<in> set ''abcdefghijklmnopqrstuvwxyzABCDEFGHIJKLMNOPQRSTUVWXYZ'')"

definition is_local_char :: "char \<Rightarrow> bool" where
  "is_local_char c = (is_alpha c \<or> is_digit c \<or> c \<in> set ''._%+-'')"

definition is_domain_char :: "char \<Rightarrow> bool" where
  "is_domain_char c = (is_alpha c \<or> is_digit c \<or> c \<in> set ''.-'')"

text \<open>
  \<open>validate_phone_number\<close>:
  \<^verbatim>\<open>
  cleaned = re.sub(r'[\s\-$$$$\+]', '', phone)
  return bool(re.match(r'^\d{7,15}$', cleaned))
  \<close>
  The class of the substitution holds whitespace, the hyphen, the dollar sign
  and the plus sign. \<open>$\<close> in the second pattern matches at the end of the
  string and before a newline that ends it.
\<close>

definition phone_separator :: "char \<Rightarrow> bool" where
  "phone_separator c = (is_space c \<or> c = CHR ''-'' \<or> c = CHR ''$'' \<or> c = CHR ''+'')"

definition match_digits_7_15 :: "string \<Rightarrow> bool" where
  "match_digits_7_15 s =
     (let d = takeWhile is_digit s; r = dropWhile is_digit s
      in 7 \<le> length d \<and> length d \<le> 15 \<and> (r = [] \<or> r = [CHR 0x0A]))"

definition validate_phone_number :: "string \<Rightarrow> bool" where
  "validate_phone_number phone =
     (let cleaned = filter (\<lambda>c. \<not> phone_separator c) phone
      in match_digits_7_15 cleaned)"

text \<open>
  \<open>validate_email\<close>:
  \<^verbatim>\<open>
  pattern = r'^[a-zA-Z0-9._%+-]+@[a-zA-Z0-9.-]+\.[a-zA-Z]{2,}$'
  return bool(re.match(pattern, email))
  \<close>
  After the \<open>@\<close>, the letters of the last group run to the end, so they are
  the longest run of letters that ends the string; a dot stands before them,
  and a non-empty run of domain characters before the dot.
\<close>

definition email_tail_ok :: "string \<Rightarrow> bool" where
  "email_tail_ok body =
     (let tld = rev (takeWhile is_alpha (rev body));
          pre = rev (dropWhile is_alpha (rev body))
      in 2 \<le> length tld \<and> pre \<noteq> [] \<and> last pre = CHR ''.''
         \<and> butlast pre \<noteq> [] \<and> list_all is_domain_char (butlast pre))"

definition validate_email :: "string \<Rightarrow> bool" where
  "validate_email email =
     (takeWhile is_local_char email \<noteq> []
      \<and> (case dropWhile is_local_char email of
            [] \<Rightarrow> False
          | c # t \<Rightarrow>
              c = CHR ''@''
              \<and> (email_tail_ok t
                  \<or> (t \<noteq> [] \<and> last t = CHR 0x0A \<and> email_tail_ok (butlast t)))))"

text \<open>\<open>str.strip()\<close>.\<close>

definition py_strip :: "string \<Rightarrow> string" where
  "py_strip s = rev (dropWhile is_space (rev (dropWhile is_space s)))"

text \<open>
  \<open>extract_contact_details\<close>. The matches of the e-mail pattern and of the
  phone pattern in a text (\<open>re.findall\<close>, in order) are given with the text.
  \<open>text_of\<close> is \<open>BeautifulSoup(...).get_text()\<close> with both \<open>findall\<close>
  calls, \<open>None\<close> where one of them raises; the \<open>try\<close> around the contact
  page turns such a raise into the values found so far.
\<close>

record text_matches =
  email_matches :: "string list"
  phone_matches :: "string list"

definition extract_contact_details ::
  "lib \<Rightarrow> (string \<Rightarrow> nat \<Rightarrow> string attempt) \<Rightarrow> (string \<Rightarrow> text_matches option)
    \<Rightarrow> text_matches \<Rightarrow> string \<Rightarrow> contact_details" where
  "extract_contact_details L net text_of page_text base_url =
     (let found = ContactDetailsSchema
            \<lparr>emails := take 5 (filter validate_email (email_matches page_text)),
             phone_numbers :=
               take 3 (map py_strip (filter validate_phone_number (phone_matches page_text)))\<rparr>;
          contact_url = urljoin L base_url ''/pages/contact''
      in case fst (get_page_content (net contact_url) None) of
           None \<Rightarrow> found
         | Some contact_content \<Rightarrow>
             if contact_content = [] then found
             else (case text_of contact_content of
                     None \<Rightarrow> found
                   | Some contact_text \<Rightarrow>
                       found
                         \<lparr>emails :=
                            take 5 (emails found
                              @ filter (\<lambda>e. validate_email e \<and> e \<notin> set (emails found))
                                  (email_matches contact_text)),
                          phone_numbers :=
                            take 3 (phone_numbers found
                              @ map py_strip
                                  (filter (\<lambda>p. validate_phone_number p
                                                \<and> p \<notin> set (phone_numbers found))
                                     (phone_matches contact_text)))\<rparr>))"

text \<open>
  An example store whose landing page shows two numbers and whose contact page
  cannot be reached.
\<close>

definition dead_net :: "string \<Rightarrow> nat \<Rightarrow> string attempt" where
  "dead_net u attempt = TimeoutError"

definition example_page_text :: text_matches where
  "example_page_text =
     \<lparr>email_matches = [''help@shop.example'', ''x@y''],
      phone_matches = ['' 456-7890'', ''+1-555-123-4567 '', ''12-34'']\<rparr>"

section \<open>The social extractor (\<open>SocialExtractor\<close>, \<open>extract_social_handle\<close>)\<close>

text \<open>The seven platforms, in the order of the \<open>social_patterns\<close> dict.\<close>

datatype platform = Instagram | Facebook | Twitter | Tiktok | Youtube | Linkedin | Pinterest

definition platforms :: "platform list" where
  "platforms = [Instagram, Facebook, Twitter, Tiktok, Youtube, Linkedin, Pinterest]"

fun platform_name :: "platform \<Rightarrow> string" where
  "platform_name Instagram = ''instagram''"
| "platform_name Facebook = ''facebook''"
| "platform_name Twitter = ''twitter''"
| "platform_name Tiktok = ''tiktok''"
| "platform_name Youtube = ''youtube''"
| "platform_name Linkedin = ''linkedin''"
| "platform_name Pinterest = ''pinterest''"

text \<open>
  The patterns of \<open>extract_social_handle\<close>. Each is a literal, then an
  optional group of alternatives, then the group \<open>([^/?]+)\<close>:
  \<^verbatim>\<open>
  'instagram': r'instagram\.com/([^/?]+)',
  'facebook': r'facebook\.com/([^/?]+)',
  'twitter': r'twitter\.com/([^/?]+)',
  'tiktok': r'tiktok\.com/@?([^/?]+)',
  'youtube': r'youtube\.com/(?:c/|channel/|user/)?([^/?]+)',
  'linkedin': r'linkedin\.com/(?:company/|in/)?([^/?]+)',
  'pinterest': r'pinterest\.com/([^/?]+)'
  \<close>
\<close>

fun pattern_of :: "platform \<Rightarrow> string \<times> string list" where
  "pattern_of Instagram = (''instagram.com/'', [])"
| "pattern_of Facebook = (''facebook.com/'', [])"
| "pattern_of Twitter = (''twitter.com/'', [])"
| "pattern_of Tiktok = (''tiktok.com/'', [''@''])"
| "pattern_of Youtube = (''youtube.com/'', [''c/'', ''channel/'', ''user/''])"
| "pattern_of Linkedin = (''linkedin.com/'', [''company/'', ''in/''])"
| "pattern_of Pinterest = (''pinterest.com/'', [])"

text \<open>
  \<open>re.search(pattern, url, re.IGNORECASE)\<close> for these patterns, returning
  \<open>match.group(1)\<close>. A literal matches whatever the case of its letters. The
  last group takes the longest run of characters other than \<open>/\<close> and \<open>?\<close>
  and needs one at least. The optional group is tried with each alternative in
  order and then left out; the search takes the leftmost position where the
  pattern matches.
\<close>

definition ci_prefix :: "string \<Rightarrow> string \<Rightarrow> bool" where
  "ci_prefix p s = (length p \<le> length s \<and> lower (take (length p) s) = lower p)"

definition handle_run :: "string \<Rightarrow> string" where
  "handle_run s = takeWhile (\<lambda>c. c \<noteq> CHR ''/'' \<and> c \<noteq> CHR ''?'') s"

fun try_alternatives :: "string list \<Rightarrow> string \<Rightarrow> string option" where
  "try_alternatives [] rest =
     (if handle_run rest \<noteq> [] then Some (handle_run rest) else None)"
| "try_alternatives (alt # alts) rest =
     (if ci_prefix alt rest \<and> handle_run (drop (length alt) rest) \<noteq> []
      then Some (handle_run (drop (length alt) rest))
      else try_alternatives alts rest)"

definition match_here :: "string \<times> string list \<Rightarrow> string \<Rightarrow> string option" where
  "match_here pat s =
     (if ci_prefix (fst pat) s then try_alternatives (snd pat) (drop (length (fst pat)) s)
      else None)"

fun re_search :: "string \<times> string list \<Rightarrow> string \<Rightarrow> string option" where
  "re_search pat [] = match_here pat []"
| "re_search pat (c # cs) =
     (case match_here pat (c # cs) of
        Some h \<Rightarrow> Some h
      | None \<Rightarrow> re_search pat cs)"

text \<open>
  \<^verbatim>\<open>
  def extract_social_handle(url, platform):
      if not validate_url(url):
          return None
      ...
      pattern = patterns.get(platform.lower())
      if pattern:
          match = re.search(pattern, url, re.IGNORECASE)
          if match:
              return match.group(1)
      return url
  \<close>
\<close>

definition extract_social_handle :: "lib \<Rightarrow> string \<Rightarrow> platform \<Rightarrow> string option" where
  "extract_social_handle L u pf =
     (if \<not> validate_url L u then None
      else (case re_search (pattern_of pf) u of
              Some h \<Rightarrow> Some h
            | None \<Rightarrow> Some u))"

text \<open>\<open>sub in s\<close> on strings.\<close>

fun contains :: "string \<Rightarrow> string \<Rightarrow> bool" where
  "contains [] sub = (sub = [])"
| "contains (c # cs) sub = (take (length sub) (c # cs) = sub \<or> contains cs sub)"

text \<open>\<open>setattr(social_handles, platform, handle)\<close>.\<close>

fun set_handle :: "platform \<Rightarrow> string \<Rightarrow> social_handles \<Rightarrow> social_handles" where
  "set_handle Instagram h s = s\<lparr>instagram := Some h\<rparr>"
| "set_handle Facebook h s = s\<lparr>facebook := Some h\<rparr>"
| "set_handle Twitter h s = s\<lparr>twitter := Some h\<rparr>"
| "set_handle Tiktok h s = s\<lparr>tiktok := Some h\<rparr>"
| "set_handle Youtube h s = s\<lparr>youtube := Some h\<rparr>"
| "set_handle Linkedin h s = s\<lparr>linkedin := Some h\<rparr>"
| "set_handle Pinterest h s = s\<lparr>pinterest := Some h\<rparr>"

text \<open>
  The scan of \<open>extract_social_handles\<close>. For one link, the inner loop stops at
  the first platform whose name occurs in the link and for which a handle
  comes back, and stores that handle; the store is unconditional.
  \<^verbatim>\<open>
  for link in links:
      href = link['href']
      for platform, pattern in social_patterns.items():
          if platform.lower() in href.lower():
              handle = extract_social_handle(href, platform)
              if handle:
                  setattr(social_handles, platform, handle)
                  break
  \<close>
\<close>

fun link_platform :: "lib \<Rightarrow> string \<Rightarrow> platform list \<Rightarrow> (platform \<times> string) option" where
  "link_platform L href [] = None"
| "link_platform L href (pf # rest) =
     (if contains (lower href) (lower (platform_name pf))
      then (case extract_social_handle L href pf of
              None \<Rightarrow> link_platform L href rest
            | Some h \<Rightarrow> if h \<noteq> [] then Some (pf, h) else link_platform L href rest)
      else link_platform L href rest)"

fun scan_links :: "lib \<Rightarrow> string list \<Rightarrow> social_handles \<Rightarrow> social_handles" where
  "scan_links L [] found = found"
| "scan_links L (href # rest) found =
     (case link_platform L href platforms of
        None \<Rightarrow> scan_links L rest found
      | Some (pf, h) \<Rightarrow> scan_links L rest (set_handle pf h found))"

definition extract_social_handles :: "lib \<Rightarrow> string list \<Rightarrow> social_handles" where
  "extract_social_handles L links = scan_links L links SocialHandlesSchema"

section \<open>The orchestrator (\<open>ShopifyStoreScraper.extract_insights\<close>)\<close>




text \<open>
  \<open>BrandInsightsSchema(...)\<close> validates every field: an exception object is
  no list of products, no schema object and no string, and the constructor
  raises \<open>ValidationError\<close>.
\<close>

definition validated :: "py_exception + 'a \<Rightarrow> ('a \<Rightarrow> py_exception + 'b) \<Rightarrow> py_exception + 'b" where
  "validated x k = (case x of Inl e \<Rightarrow> Inl ValidationError | Inr v \<Rightarrow> k v)"












chapter \<open>Properties\<close>

section \<open>Properties of URL normalisation\<close>

lemma dropWhile_eq_replicate: "\<exists>n. xs = replicate n c @ dropWhile (\<lambda>x. x = c) xs"
proof (induction xs)
  case Nil
  show ?case by simp
next
  case (Cons x xs)
  then obtain n where n: "xs = replicate n c @ dropWhile (\<lambda>x. x = c) xs" ..
  show ?case
  proof (cases "x = c")
    case True
    have "x # xs = replicate (Suc n) c @ dropWhile (\<lambda>x. x = c) (x # xs)"
      using True n by simp
    then show ?thesis ..
  next
    case False
    have "x # xs = replicate 0 c @ dropWhile (\<lambda>x. x = c) (x # xs)"
      using False by simp
    then show ?thesis ..
  qed
qed

lemma rstrip_char_decomp: "\<exists>n. s = rstrip_char c s @ replicate n c"
proof -
  obtain n where "rev s = replicate n c @ dropWhile (\<lambda>x. x = c) (rev s)"
    using dropWhile_eq_replicate [of "rev s" c] ..
  then have "rev (rev s) = rev (replicate n c @ dropWhile (\<lambda>x. x = c) (rev s))"
    by (rule arg_cong)
  then have "s = rstrip_char c s @ replicate n c"
    by (simp add: rstrip_char_def)
  then show ?thesis ..
qed

lemma rstrip_char_no_suffix: "\<not> suffix [c] (rstrip_char c s)"
proof
  assume "suffix [c] (rstrip_char c s)"
  then obtain ys where "rstrip_char c s = ys @ [c]"
    unfolding suffix_def ..
  then have "rev (rev (dropWhile (\<lambda>x. x = c) (rev s))) = rev (ys @ [c])"
    unfolding rstrip_char_def by (rule arg_cong)
  then have d: "dropWhile (\<lambda>x. x = c) (rev s) = c # rev ys"
    by simp
  then have "dropWhile (\<lambda>x. x = c) (rev s) \<noteq> []" by simp
  then have "\<not> (hd (dropWhile (\<lambda>x. x = c) (rev s)) = c)"
    by (rule hd_dropWhile)
  with d show False by simp
qed

lemma rstrip_char_at_most_one:
  assumes ns: "\<not> suffix [c, c] s"
  shows "rstrip_char c s = (if s \<noteq> [] \<and> last s = c then butlast s else s)"
proof (cases s rule: rev_cases)
  case Nil
  then show ?thesis by (simp add: rstrip_char_def)
next
  case (snoc ys y)
  show ?thesis
  proof (cases "y = c")
    case False
    with snoc show ?thesis by (simp add: rstrip_char_def)
  next
    case True
    have "dropWhile (\<lambda>x. x = c) (rev ys) = rev ys"
    proof (cases ys rule: rev_cases)
      case Nil
      then show ?thesis by simp
    next
      case (snoc zs z)
      have "z \<noteq> c"
      proof
        assume "z = c"
        with snoc \<open>s = ys @ [y]\<close> True have "s = zs @ [c, c]" by simp
        then have "suffix [c, c] s" unfolding suffix_def ..
        with ns show False ..
      qed
      with snoc show ?thesis by simp
    qed
    with snoc True show ?thesis by (simp add: rstrip_char_def)
  qed
qed

text \<open>
  C4, as stated, fails: a URL ending in two slashes loses both of them,
  where the claim says it loses only one.
\<close>

theorem normalize_url_two_slashes_counterexample:
  "normalize_url ''https://example.com//'' = ''https://example.com''
   \<and> spec_normalize_url ''https://example.com//'' = ''https://example.com/''
   \<and> normalize_url ''https://example.com//'' \<noteq> spec_normalize_url ''https://example.com//''"
  by (simp add: normalize_url_def spec_normalize_url_def ensure_scheme_def
      startswith_def rstrip_char_def strip_one_slash_def)

text \<open>
  C4, amended: normalisation prepends \<open>https://\<close> exactly when the URL starts
  with neither \<open>http://\<close> nor \<open>https://\<close>, and then removes the whole run of
  trailing slashes: the result never ends in a slash and differs from the
  scheme-prefixed URL only by that run. Where the scheme-prefixed URL ends in
  at most one slash, this is the removal of exactly one trailing slash, as the
  specification words it.
\<close>

theorem normalize_url_strips_all_trailing_slashes:
  "(\<exists>n. (if startswith u ''http://'' \<or> startswith u ''https://''
          then u else ''https://'' @ u)
        = normalize_url u @ replicate n CHR ''/'')
   \<and> \<not> suffix ''/'' (normalize_url u)
   \<and> (\<not> suffix ''//'' (ensure_scheme u) \<longrightarrow> normalize_url u = spec_normalize_url u)"
proof (intro conjI impI)
  have "ensure_scheme u = (if startswith u ''http://'' \<or> startswith u ''https://''
          then u else ''https://'' @ u)"
    by (simp add: ensure_scheme_def)
  then show "\<exists>n. (if startswith u ''http://'' \<or> startswith u ''https://''
          then u else ''https://'' @ u)
        = normalize_url u @ replicate n CHR ''/''"
    using rstrip_char_decomp [of "ensure_scheme u" "CHR ''/''"]
    by (simp add: normalize_url_def)
next
  show "\<not> suffix ''/'' (normalize_url u)"
    unfolding normalize_url_def by (rule rstrip_char_no_suffix)
next
  assume "\<not> suffix ''//'' (ensure_scheme u)"
  then show "normalize_url u = spec_normalize_url u"
    unfolding normalize_url_def spec_normalize_url_def strip_one_slash_def
    by (rule rstrip_char_at_most_one)
qed

theorem normalize_url_strips_all_trailing_slashes_witness:
  "\<not> suffix ''//'' (ensure_scheme ''example.com/'')
   \<and> normalize_url ''example.com/'' = ''https://example.com''
   \<and> spec_normalize_url ''example.com/'' = ''https://example.com''
   \<and> normalize_url ''https://example.com/'' = ''https://example.com''
   \<and> normalize_url ''http://example.com'' = ''http://example.com''"
proof -
  have h: "\<not> suffix ''//'' (ensure_scheme ''example.com/'')"
    by (simp add: ensure_scheme_def startswith_def suffix_def)
  have e: "spec_normalize_url ''example.com/'' = ''https://example.com''"
    by (simp add: spec_normalize_url_def ensure_scheme_def startswith_def strip_one_slash_def)
  from normalize_url_strips_all_trailing_slashes [of "''example.com/''"] h
  have "normalize_url ''example.com/'' = spec_normalize_url ''example.com/''"
    by blast
  with h e show ?thesis
    by (simp add: normalize_url_def ensure_scheme_def startswith_def rstrip_char_def)
qed

section \<open>Properties of the fetcher\<close>

lemma upt_0_4: "[0..<4] = [0, Suc 0, 2, 3]"
  by (simp add: upt_conv_Cons)

text \<open>
  C3: with \<open>retries = 3\<close> (also as the default) against an endpoint whose
  every attempt times out, the fetcher sends exactly four requests, sleeps
  1, 2 and 4 seconds between consecutive requests, and returns \<open>None\<close>.
\<close>

theorem get_page_content_all_timeouts:
  assumes "\<forall>a\<le>3. w a = TimeoutError"
  shows "get_page_content w (Some 3)
           = (None, [Request 0, Sleep 1, Request 1, Sleep 2, Request 2, Sleep 4, Request 3])
       \<and> get_page_content w None = get_page_content w (Some 3)"
proof -
  have w: "w 0 = TimeoutError" "w (Suc 0) = TimeoutError" "w 2 = TimeoutError"
      "w 3 = TimeoutError"
    using assms by simp_all
  show ?thesis
    by (simp add: get_page_content_def MAX_RETRIES_def upt_0_4 w backoff_def)
qed

theorem get_page_content_all_timeouts_witness:
  "get_page_content (\<lambda>_. TimeoutError :: string attempt) (Some 3)
     = (None, [Request 0, Sleep 1, Request 1, Sleep 2, Request 2, Sleep 4, Request 3])
   \<and> length (filter (\<lambda>e. case e of Request _ \<Rightarrow> True | Sleep _ \<Rightarrow> False)
        (snd (get_page_content (\<lambda>_. TimeoutError :: string attempt) (Some 3)))) = 4"
proof -
  have "\<forall>a\<le>3. (\<lambda>_. TimeoutError :: string attempt) a = TimeoutError"
    by simp
  from get_page_content_all_timeouts [OF this] show ?thesis
    by simp
qed

lemma json_loop_next_attempts:
  assumes "\<forall>j\<in>set js. json_step (w j) = NextAttempt"
  shows "json_loop w retries (js @ rest)
    = (fst (json_loop w retries rest),
       concat (map (\<lambda>j. Request j # backoff retries j) js) @ snd (json_loop w retries rest))"
  using assms
proof (induction js)
  case Nil
  show ?case by simp
next
  case (Cons j js)
  then have r: "json_step (w j) = NextAttempt" and ih: "json_loop w retries (js @ rest)
    = (fst (json_loop w retries rest),
       concat (map (\<lambda>j. Request j # backoff retries j) js) @ snd (json_loop w retries rest))"
    by simp_all
  show ?case
    by (simp add: r ih)
qed

lemma upt_split3:
  assumes "k < n"
  shows "[0..<n] = [0..<k] @ k # [Suc k..<n]"
proof -
  have "[0..<k + (n - k)] = [0..<k] @ [k..<k + (n - k)]"
    by (rule upt_add_eq_append) simp
  moreover have "k + (n - k) = n"
    using assms by simp
  ultimately have "[0..<n] = [0..<k] @ [k..<n]"
    by simp
  moreover have "[k..<n] = k # [Suc k..<n]"
    using assms by (rule upt_conv_Cons)
  ultimately show ?thesis
    by simp
qed

lemma json_loop_invalid_json:
  assumes k: "int k \<le> retries"
    and bad: "w k = JSONDecodeError
      \<or> (w k = Ok200 response \<and> json_content_type response \<and> payload response = InvalidJson)"
    and before: "\<forall>j<k. json_step (w j) = NextAttempt"
  shows "json_loop w retries [0..<nat (retries + 1)]
    = (None, concat (map (\<lambda>j. [Request j, Sleep (2 ^ j)]) [0..<k]) @ [Request k])"
proof -
  from k have kn: "k < nat (retries + 1)" by simp
  have sl: "\<forall>j\<in>set [0..<k]. Request j # backoff retries j = [Request j, Sleep (2 ^ j)]"
    using k by (simp add: backoff_def)
  have m: "map (\<lambda>j. Request j # backoff retries j) [0..<k]
      = map (\<lambda>j. [Request j, Sleep (2 ^ j)]) [0..<k]"
    by (rule map_cong [OF refl]) (use sl in blast)
  have r: "\<forall>j\<in>set [0..<k]. json_step (w j) = NextAttempt"
    using before by simp
  have s: "json_step (w k) = Return None"
    using bad by (auto simp: json_step_def)
  have "json_loop w retries ([0..<k] @ k # [Suc k..<nat (retries + 1)])
    = (None, concat (map (\<lambda>j. Request j # backoff retries j) [0..<k]) @ [Request k])"
    by (simp only: json_loop_next_attempts [OF r]) (simp add: s)
  then show ?thesis
    by (simp only: upt_split3 [OF kn] m)
qed

lemma json_loop_wrong_content_type:
  assumes "\<forall>j. \<exists>response. w j = Ok200 response \<and> \<not> json_content_type response"
  shows "json_loop w retries js = (None, concat (map (\<lambda>j. Request j # backoff retries j) js))"
proof -
  have "json_step (w j) = NextAttempt" for j
  proof -
    from assms obtain response where "w j = Ok200 response" "\<not> json_content_type response"
      by blast
    then show ?thesis by (simp add: json_step_def)
  qed
  then have "\<forall>j\<in>set js. json_step (w j) = NextAttempt"
    by simp
  from json_loop_next_attempts [OF this, of retries "[]"] show ?thesis
    by simp
qed

text \<open>
  C7, as stated, fails: an endpoint that answers with status 200 and a body
  that does not decode as JSON, sent as \<open>text/html\<close>, is tried four times
  with the full backoff before \<open>None\<close> comes back.
\<close>

theorem get_json_html_body_counterexample:
  "html_page_endpoint 0 = Ok200 \<lparr>json_content_type = False, payload = InvalidJson\<rparr>
   \<and> get_json html_page_endpoint None
     = (None, [Request 0, Sleep 1, Request 1, Sleep 2, Request 2, Sleep 4, Request 3])"
  by (simp add: get_json_def MAX_RETRIES_def upt_0_4 html_page_endpoint_def json_step_def
      backoff_def)

text \<open>
  C7, amended: when \<open>response.json()\<close> raises \<open>json.JSONDecodeError\<close> (a
  status 200 with a JSON content type whose text is not JSON) at attempt
  \<open>k\<close>, the attempts before it having gone on to the next one, \<open>get_json\<close>
  returns \<open>None\<close> and its trace stops at the request of attempt \<open>k\<close>: no
  backoff and no further request follow, however many retries remain, with the
  number of retries given or left to the default. A status 200 whose content
  type is not JSON does not decode either, but raises \<open>ContentTypeError\<close>
  and is retried like a timeout: every attempt is made, with the backoff in
  between, before \<open>None\<close> is returned.
\<close>

theorem get_json_decode_error_terminal:
  "(int k \<le> (case retries_arg of None \<Rightarrow> MAX_RETRIES | Some r \<Rightarrow> r)
      \<and> (w k = JSONDecodeError
           \<or> (w k = Ok200 response \<and> json_content_type response
                \<and> payload response = InvalidJson))
      \<and> (\<forall>j<k. json_step (w j) = NextAttempt)
    \<longrightarrow> get_json w retries_arg
          = (None, concat (map (\<lambda>j. [Request j, Sleep (2 ^ j)]) [0..<k]) @ [Request k]))
   \<and> ((\<forall>j. \<exists>r. v j = Ok200 r \<and> \<not> json_content_type r)
    \<longrightarrow> get_json v retries_arg
          = (None,
             concat (map (\<lambda>j. Request j
                  # backoff (case retries_arg of None \<Rightarrow> MAX_RETRIES | Some r \<Rightarrow> r) j)
               [0..<nat ((case retries_arg of None \<Rightarrow> MAX_RETRIES | Some r \<Rightarrow> r) + 1)])))"
proof (intro conjI impI)
  assume h: "int k \<le> (case retries_arg of None \<Rightarrow> MAX_RETRIES | Some r \<Rightarrow> r)
      \<and> (w k = JSONDecodeError
           \<or> (w k = Ok200 response \<and> json_content_type response
                \<and> payload response = InvalidJson))
      \<and> (\<forall>j<k. json_step (w j) = NextAttempt)"
  then have "json_loop w (case retries_arg of None \<Rightarrow> MAX_RETRIES | Some r \<Rightarrow> r)
      [0..<nat ((case retries_arg of None \<Rightarrow> MAX_RETRIES | Some r \<Rightarrow> r) + 1)]
    = (None, concat (map (\<lambda>j. [Request j, Sleep (2 ^ j)]) [0..<k]) @ [Request k])"
    by (intro json_loop_invalid_json) blast+
  then show "get_json w retries_arg
      = (None, concat (map (\<lambda>j. [Request j, Sleep (2 ^ j)]) [0..<k]) @ [Request k])"
    by (simp add: get_json_def Let_def)
next
  assume "\<forall>j. \<exists>r. v j = Ok200 r \<and> \<not> json_content_type r"
  then show "get_json v retries_arg
      = (None,
         concat (map (\<lambda>j. Request j
              # backoff (case retries_arg of None \<Rightarrow> MAX_RETRIES | Some r \<Rightarrow> r) j)
           [0..<nat ((case retries_arg of None \<Rightarrow> MAX_RETRIES | Some r \<Rightarrow> r) + 1)]))"
    by (simp add: get_json_def Let_def json_loop_wrong_content_type)
qed

theorem get_json_decode_error_terminal_witness:
  "get_json broken_json_endpoint None = (None, [Request 0, Sleep 1, Request 1])
   \<and> get_json broken_json_endpoint (Some 5) = (None, [Request 0, Sleep 1, Request 1])
   \<and> get_json html_page_endpoint (Some 1) = (None, [Request 0, Sleep 1, Request 1])"
proof -
  let ?bad = "\<lparr>json_content_type = True, payload = InvalidJson :: string payload\<rparr>"
  have b: "broken_json_endpoint 1 = Ok200 ?bad" "json_content_type ?bad"
      "payload ?bad = InvalidJson"
    by (simp_all add: broken_json_endpoint_def)
  have c: "\<forall>j<1. json_step (broken_json_endpoint j) = NextAttempt"
    by (simp add: broken_json_endpoint_def json_step_def)
  have d: "\<forall>j. \<exists>r. html_page_endpoint j = Ok200 r \<and> \<not> json_content_type r"
    by (simp add: html_page_endpoint_def)
  have u: "[0..<2] = [0, Suc 0]"
    by (simp add: upt_conv_Cons)
  have "int 1 \<le> (case None of None \<Rightarrow> MAX_RETRIES | Some r \<Rightarrow> r)"
    by (simp add: MAX_RETRIES_def)
  with get_json_decode_error_terminal [of 1 None broken_json_endpoint ?bad html_page_endpoint] b c
  have 1: "get_json broken_json_endpoint None = (None, [Request 0, Sleep 1, Request 1])"
    by simp
  have "int 1 \<le> (case Some 5 of None \<Rightarrow> MAX_RETRIES | Some r \<Rightarrow> r)"
    by simp
  with get_json_decode_error_terminal [of 1 "Some 5" broken_json_endpoint ?bad
      html_page_endpoint] b c
  have 2: "get_json broken_json_endpoint (Some 5) = (None, [Request 0, Sleep 1, Request 1])"
    by simp
  from get_json_decode_error_terminal [of 1 "Some 1" broken_json_endpoint ?bad html_page_endpoint] d
  have 3: "get_json html_page_endpoint (Some 1) = (None, [Request 0, Sleep 1, Request 1])"
    by (simp add: u backoff_def)
  from 1 2 3 show ?thesis by blast
qed

section \<open>Properties of catalog parsing\<close>

lemma build_variants_empty:
  "build_variants xs = Some vs \<Longrightarrow> (vs = []) = (xs = [])"
  by (cases xs) (auto split: json.splits)

lemma build_variants_flag:
  "build_variants xs = Some vs \<Longrightarrow>
   list_ex (\<lambda>v. truthy (dict_get v ''available'' (JBool False))) vs
     = (\<exists>x\<in>set xs. variant_flag_true x)"
proof (induction xs arbitrary: vs)
  case Nil
  then show ?case by simp
next
  case (Cons x xs)
  from Cons.prems obtain d ws where x: "x = JObj d" and ws: "build_variants xs = Some ws"
    and vs: "vs = [(''id'', dict_get d ''id'' JNull),
                  (''title'', dict_get d ''title'' JNull),
                  (''price'', dict_get d ''price'' JNull),
                  (''available'', dict_get d ''available'' (JBool True)),
                  (''sku'', dict_get d ''sku'' JNull)] # ws"
    by (auto split: json.splits)
  have hd: "truthy (dict_get [(''id'', dict_get d ''id'' JNull),
                  (''title'', dict_get d ''title'' JNull),
                  (''price'', dict_get d ''price'' JNull),
                  (''available'', dict_get d ''available'' (JBool True)),
                  (''sku'', dict_get d ''sku'' JNull)] ''available'' (JBool False))
      = variant_flag_true (JObj d)"
    by (simp add: dict_get_def variant_flag_true_def split: option.splits)
  show ?case
    using Cons.IH [OF ws] by (simp add: vs x hd)
qed

lemma build_variants_price:
  "build_variants xs = Some vs \<Longrightarrow>
   first_variant_get vs ''price'' = (case xs of [] \<Rightarrow> JNull | x # _ \<Rightarrow> variant_price x)"
  by (cases xs)
    (auto simp: first_variant_get_def variant_price_def dict_get_def
      split: json.splits option.splits)

lemma iter_key_source_variants:
  "iter_key product_data ''variants'' = Some xs \<Longrightarrow> source_variants product_data = xs"
  by (auto simp: iter_key_def source_variants_def split: option.splits)

lemma parse_product_json_fields:
  assumes "parse_product_json L product_data base_url = Some p"
  shows "\<exists>xs vs. iter_key product_data ''variants'' = Some xs \<and> build_variants xs = Some vs
    \<and> available p = any_available vs
    \<and> validate_opt_str L (first_variant_get vs ''price'') = Some (price p)"
proof -
  from assms obtain vs where b: "Option.bind (iter_key product_data ''variants'') build_variants = Some vs"
    and a: "available p = any_available vs"
    and pr: "validate_opt_str L (first_variant_get vs ''price'') = Some (price p)"
    unfolding parse_product_json_def
    by (auto split: option.splits)
  from b obtain xs where "iter_key product_data ''variants'' = Some xs" "build_variants xs = Some vs"
    by (auto simp: bind_eq_Some_conv)
  with a pr show ?thesis by blast
qed

text \<open>
  C8: for every product that \<open>_parse_product_json\<close> returns, \<open>available\<close>
  is true if and only if the source has no variant or some source variant has
  its availability flag true, a variant without the flag counting as
  available; and its price is the first variant's price (as the schema's
  \<open>Optional[str]\<close> field holds it; a string price is taken over unchanged).
  A flag is read by Python truthiness, which on a JSON boolean is its value.
\<close>

theorem parse_product_json_available:
  assumes "parse_product_json L product_data base_url = Some p"
  shows "(available p \<longleftrightarrow>
            source_variants product_data = []
            \<or> (\<exists>v\<in>set (source_variants product_data). variant_flag_true v))
    \<and> validate_opt_str L
         (case source_variants product_data of [] \<Rightarrow> JNull | v # _ \<Rightarrow> variant_price v)
        = Some (price p)
    \<and> (\<forall>v rest s. source_variants product_data = v # rest \<and> variant_price v = JStr s
          \<longrightarrow> price p = Some s)"
proof -
  from parse_product_json_fields [OF assms] obtain xs vs
    where i: "iter_key product_data ''variants'' = Some xs"
      and b: "build_variants xs = Some vs"
      and a: "available p = any_available vs"
      and pr: "validate_opt_str L (first_variant_get vs ''price'') = Some (price p)"
    by blast
  have sv: "source_variants product_data = xs"
    using i by (rule iter_key_source_variants)
  have 1: "available p \<longleftrightarrow> xs = [] \<or> (\<exists>v\<in>set xs. variant_flag_true v)"
    using build_variants_empty [OF b] build_variants_flag [OF b]
    by (auto simp: a any_available_def)
  have 2: "validate_opt_str L (case xs of [] \<Rightarrow> JNull | v # _ \<Rightarrow> variant_price v)
        = Some (price p)"
    using pr by (simp add: build_variants_price [OF b])
  have 3: "\<forall>v rest s. xs = v # rest \<and> variant_price v = JStr s \<longrightarrow> price p = Some s"
    using 2 by (auto simp: validate_opt_str_def validate_str_def)
  from 1 2 3 show ?thesis
    unfolding sv by blast
qed

theorem parse_product_json_available_witness:
  "(\<exists>p. parse_product_json example_lib example_product_data ''https://test-store.com'' = Some p
       \<and> available p \<and> price p = Some ''29.99'')
   \<and> source_variants example_product_data
      = [JObj [(''id'', JNum 1), (''price'', JStr ''29.99''), (''available'', JBool False)],
         JObj [(''id'', JNum 2), (''price'', JStr ''39.99''), (''available'', JBool True)]]
   \<and> \<not> variant_flag_true (JObj [(''id'', JNum 1), (''price'', JStr ''29.99''), (''available'', JBool False)])
   \<and> variant_flag_true (JObj [(''id'', JNum 2), (''price'', JStr ''39.99''), (''available'', JBool True)])"
proof -
  obtain p where e: "parse_product_json example_lib example_product_data ''https://test-store.com'' = Some p"
    by (simp add: parse_product_json_def example_lib_def example_product_data_def iter_key_def
        dict_get_def validate_str_def validate_opt_str_def parse_tags_def first_variant_get_def)
  have sv: "source_variants example_product_data
      = [JObj [(''id'', JNum 1), (''price'', JStr ''29.99''), (''available'', JBool False)],
         JObj [(''id'', JNum 2), (''price'', JStr ''39.99''), (''available'', JBool True)]]"
    by (simp add: source_variants_def example_product_data_def)
  have f: "\<not> variant_flag_true (JObj [(''id'', JNum 1), (''price'', JStr ''29.99''), (''available'', JBool False)])"
     "variant_flag_true (JObj [(''id'', JNum 2), (''price'', JStr ''39.99''), (''available'', JBool True)])"
    by (simp_all add: variant_flag_true_def)
  have vp: "variant_price (JObj [(''id'', JNum 1), (''price'', JStr ''29.99''), (''available'', JBool False)]) = JStr ''29.99''"
    by (simp add: variant_price_def)
  from parse_product_json_available [OF e]
  have "available p" and "price p = Some ''29.99''"
    using f vp unfolding sv by simp_all
  with e sv f show ?thesis by blast
qed

section \<open>Properties of the similarity scorer\<close>

lemma product_types_type_set: "product_types catalog = type_set catalog"
  by (induction catalog) (auto simp: product_types_def type_set_def split: option.splits)

lemma length_filter_indicator:
  "length (filter (\<lambda>v. case v of None \<Rightarrow> False | Some h \<Rightarrow> h \<noteq> []) vs)
     = (\<Sum>v \<leftarrow> vs. case v of None \<Rightarrow> 0 | Some h \<Rightarrow> if h = [] then 0 else 1)"
  by (induction vs) (auto split: option.splits)

lemma count_platforms_platform_count: "count_platforms s = platform_count s"
  unfolding count_platforms_def platform_count_def length_filter_indicator platform_values_def
  by simp

lemma type_set_empty_catalog: "type_set [] = {}"
  by (simp add: type_set_def)

lemma finite_type_set: "finite (type_set c)"
  unfolding product_types_type_set [symmetric] by (simp add: product_types_def)

lemma add_type_overlap_eq:
  "add_type_overlap (product_catalog a) (product_catalog b) st
     = (case jaccard_signal a b of None \<Rightarrow> st | Some x \<Rightarrow> (fst st + x, snd st + 1))"
proof -
  have u: "type_set (product_catalog a) \<noteq> {} \<Longrightarrow>
      0 < card (type_set (product_catalog a) \<union> type_set (product_catalog b))"
    by (simp add: card_gt_0_iff finite_type_set)
  have e: "type_set (product_catalog a) \<noteq> {} \<Longrightarrow> product_catalog a \<noteq> []" for a
    using type_set_empty_catalog by auto
  show ?thesis
    using u e [of a] e [of b]
    by (auto simp: add_type_overlap_def jaccard_signal_def jaccard_index_def Let_def
        product_types_type_set)
qed

lemma add_social_ratio_eq:
  "add_social_ratio (count_platforms (social_handles a)) (count_platforms (social_handles b)) st
     = (case social_signal a b of None \<Rightarrow> st | Some x \<Rightarrow> (fst st + x, snd st + 1))"
  by (simp add: add_social_ratio_def social_signal_def min_max_ratio_def Let_def
      count_platforms_platform_count)

lemma add_count_ratio_eq:
  "add_count_ratio (length (product_catalog a)) (length (product_catalog b)) st
     = (case size_signal a b of None \<Rightarrow> st | Some x \<Rightarrow> (fst st + x, snd st + 1))"
  by (simp add: add_count_ratio_def size_signal_def min_max_ratio_def Let_def)

lemma calculate_similarity_mean:
  "calculate_similarity a b = unweighted_mean (comparable_signals a b)"
  unfolding calculate_similarity_def Let_def add_type_overlap_eq add_social_ratio_eq
    add_count_ratio_eq comparable_signals_def unweighted_mean_def
  by (cases "jaccard_signal a b"; cases "social_signal a b"; cases "size_signal a b")
     (simp_all add: add.assoc)

lemma ratio_bounds:
  fixes m n :: nat
  assumes "m \<le> n"
  shows "0 \<le> (of_nat m :: rat) / of_nat n \<and> (of_nat m :: rat) / of_nat n \<le> 1"
proof (cases "n = 0")
  case True
  then show ?thesis by simp
next
  case False
  then have "(0::rat) < of_nat n" by simp
  moreover have "(of_nat m :: rat) \<le> of_nat n" using assms by simp
  ultimately show ?thesis by (simp add: divide_le_eq)
qed

lemma min_max_ratio_bounds: "0 \<le> min_max_ratio m n \<and> min_max_ratio m n \<le> 1"
  unfolding min_max_ratio_def by (rule ratio_bounds) simp

lemma jaccard_index_bounds:
  assumes "finite A" and "finite B"
  shows "0 \<le> jaccard_index A B \<and> jaccard_index A B \<le> 1"
proof -
  have "card (A \<inter> B) \<le> card (A \<union> B)"
    by (rule card_mono) (use assms in auto)
  then show ?thesis
    unfolding jaccard_index_def by (rule ratio_bounds)
qed

lemma jaccard_signal_bounds: "jaccard_signal a b = Some x \<Longrightarrow> 0 \<le> x \<and> x \<le> 1"
  using jaccard_index_bounds [OF finite_type_set finite_type_set,
      of "product_catalog a" "product_catalog b"]
  by (auto simp: jaccard_signal_def Let_def split: if_splits)

lemma social_signal_bounds: "social_signal a b = Some x \<Longrightarrow> 0 \<le> x \<and> x \<le> 1"
  using min_max_ratio_bounds
  by (auto simp: social_signal_def Let_def split: if_splits)

lemma size_signal_bounds: "size_signal a b = Some x \<Longrightarrow> 0 \<le> x \<and> x \<le> 1"
  using min_max_ratio_bounds
  by (auto simp: size_signal_def Let_def split: if_splits)

lemma unweighted_mean_bounds:
  assumes "\<forall>x\<in>set xs. 0 \<le> x \<and> x \<le> (1::rat)"
  shows "0 \<le> unweighted_mean xs \<and> unweighted_mean xs \<le> 1"
proof (cases "xs = []")
  case True
  then show ?thesis by (simp add: unweighted_mean_def)
next
  case False
  then have n: "(0::rat) < of_nat (length xs)" by simp
  have lo: "0 \<le> sum_list xs"
    using assms by (simp add: sum_list_nonneg)
  have hi: "sum_list xs \<le> of_nat (length xs)"
    using assms by (induction xs) auto
  from lo hi n False show ?thesis
    by (simp add: unweighted_mean_def divide_le_eq)
qed

lemma comparable_signals_bounds: "\<forall>x\<in>set (comparable_signals a b). 0 \<le> x \<and> x \<le> 1"
  using jaccard_signal_bounds [of a b] social_signal_bounds [of a b] size_signal_bounds [of a b]
  by (auto simp: comparable_signals_def split: option.splits)

text \<open>
  C2: the similarity score of two brand records is the unweighted mean of the
  comparable signals among the Jaccard index of the lower-cased product-type
  sets, the min/max ratio of the counted social platforms and the min/max
  ratio of the catalog sizes, a signal being comparable when both sides have
  nonzero data for it; the score lies between 0 and 1, is 1 when all three
  signals are comparable and equal to 1, and is 0 when no signal is
  comparable. (Scores are exact rationals here.)
\<close>

theorem calculate_similarity_mean_of_signals:
  "calculate_similarity a b = unweighted_mean (comparable_signals a b)
   \<and> 0 \<le> calculate_similarity a b \<and> calculate_similarity a b \<le> 1
   \<and> (jaccard_signal a b = Some 1 \<and> social_signal a b = Some 1 \<and> size_signal a b = Some 1
        \<longrightarrow> calculate_similarity a b = 1)
   \<and> (jaccard_signal a b = None \<and> social_signal a b = None \<and> size_signal a b = None
        \<longrightarrow> calculate_similarity a b = 0)"
proof -
  have m: "calculate_similarity a b = unweighted_mean (comparable_signals a b)"
    by (rule calculate_similarity_mean)
  have b: "0 \<le> calculate_similarity a b \<and> calculate_similarity a b \<le> 1"
    unfolding m by (rule unweighted_mean_bounds) (rule comparable_signals_bounds)
  have one: "jaccard_signal a b = Some 1 \<and> social_signal a b = Some 1 \<and> size_signal a b = Some 1
        \<longrightarrow> calculate_similarity a b = 1"
    unfolding m by (simp add: comparable_signals_def unweighted_mean_def)
  have zero: "jaccard_signal a b = None \<and> social_signal a b = None \<and> size_signal a b = None
        \<longrightarrow> calculate_similarity a b = 0"
    unfolding m by (simp add: comparable_signals_def unweighted_mean_def)
  from m b one zero show ?thesis by blast
qed

lemma lower_examples:
  "lower ''Shirts'' = ''shirts''" "lower ''shirts'' = ''shirts''" "lower ''Hats'' = ''hats''"
  "lower ''Shoes'' = ''shoes''"
  "lower [CHR ''C'', CHR ''A'', CHR ''F'', CHR 0xC9] = [CHR ''c'', CHR ''a'', CHR ''f'', CHR 0xE9]"
  "lower [CHR ''c'', CHR ''a'', CHR ''f'', CHR 0xE9] = [CHR ''c'', CHR ''a'', CHR ''f'', CHR 0xE9]"
  by (simp_all add: lower_def lower_char_def upper_letters_def lower_letters_def)

theorem calculate_similarity_mean_of_signals_witness:
  "comparable_signals store_a store_b = [1 / 3, 1 / 2, 1]
   \<and> calculate_similarity store_a store_b = 11 / 18
   \<and> jaccard_signal cafe_upper cafe_lower = Some 1
   \<and> social_signal cafe_upper cafe_lower = Some 1
   \<and> size_signal cafe_upper cafe_lower = Some 1
   \<and> calculate_similarity cafe_upper cafe_lower = 1
   \<and> jaccard_signal (small_brand ''https://a.com'' [] None) (small_brand ''https://b.com'' [] None)
       = None
   \<and> social_signal (small_brand ''https://a.com'' [] None) (small_brand ''https://b.com'' [] None)
       = None
   \<and> size_signal (small_brand ''https://a.com'' [] None) (small_brand ''https://b.com'' [] None)
       = None
   \<and> calculate_similarity (small_brand ''https://a.com'' [] None)
        (small_brand ''https://b.com'' [] None) = 0"
proof -
  let ?E = "small_brand ''https://a.com'' [] None"
  let ?F = "small_brand ''https://b.com'' [] None"
  have ta: "type_set (product_catalog store_a) = {''shirts'', ''hats''}"
    by (auto simp: type_set_def store_a_def small_brand_def typed_product_def lower_examples)
  have tb: "type_set (product_catalog store_b) = {''shirts'', ''shoes''}"
    by (auto simp: type_set_def store_b_def small_brand_def typed_product_def lower_examples)
  have i: "{''shirts'', ''hats''} \<inter> {''shirts'', ''shoes''} = {''shirts''}"
    by auto
  have un: "{''shirts'', ''hats''} \<union> {''shirts'', ''shoes''} = {''shirts'', ''hats'', ''shoes''}"
    by auto
  have ji: "jaccard_index {''shirts'', ''hats''} {''shirts'', ''shoes''} = 1 / 3"
    unfolding jaccard_index_def i un by simp
  have j: "jaccard_signal store_a store_b = Some (1 / 3)"
    by (simp add: jaccard_signal_def ta tb ji)
  have pa: "platform_count (social_handles store_a) = 1"
    by (simp add: platform_count_def store_a_def small_brand_def SocialHandlesSchema_def)
  have pb: "platform_count (social_handles store_b) = 2"
    by (simp add: platform_count_def store_b_def small_brand_def SocialHandlesSchema_def)
  have s: "social_signal store_a store_b = Some (1 / 2)"
    by (simp add: social_signal_def pa pb min_max_ratio_def)
  have z: "size_signal store_a store_b = Some 1"
    by (simp add: size_signal_def store_a_def store_b_def small_brand_def min_max_ratio_def)
  have c: "comparable_signals store_a store_b = [1 / 3, 1 / 2, 1]"
    by (simp add: comparable_signals_def j s z)
  have tc: "type_set (product_catalog cafe_upper) = {[CHR ''c'', CHR ''a'', CHR ''f'', CHR 0xE9]}"
    "type_set (product_catalog cafe_lower) = {[CHR ''c'', CHR ''a'', CHR ''f'', CHR 0xE9]}"
    by (simp_all add: type_set_def cafe_upper_def cafe_lower_def small_brand_def
        typed_product_def lower_examples)
  have j1: "jaccard_signal cafe_upper cafe_lower = Some 1"
    by (simp add: jaccard_signal_def tc jaccard_index_def)
  have s1: "social_signal cafe_upper cafe_lower = Some 1"
    by (simp add: social_signal_def platform_count_def cafe_upper_def cafe_lower_def
        small_brand_def SocialHandlesSchema_def min_max_ratio_def)
  have z1: "size_signal cafe_upper cafe_lower = Some 1"
    by (simp add: size_signal_def cafe_upper_def cafe_lower_def small_brand_def
        min_max_ratio_def)
  have j0: "jaccard_signal ?E ?F = None"
    by (simp add: jaccard_signal_def small_brand_def type_set_def)
  have s0: "social_signal ?E ?F = None"
    by (simp add: social_signal_def small_brand_def platform_count_def SocialHandlesSchema_def)
  have z0: "size_signal ?E ?F = None"
    by (simp add: size_signal_def small_brand_def)
  from calculate_similarity_mean_of_signals [of store_a store_b]
  have "calculate_similarity store_a store_b = unweighted_mean [1 / 3, 1 / 2, 1]"
    unfolding c by blast
  then have mid: "calculate_similarity store_a store_b = 11 / 18"
    by (simp add: unweighted_mean_def)
  from calculate_similarity_mean_of_signals [of cafe_upper cafe_lower] j1 s1 z1
  have one: "calculate_similarity cafe_upper cafe_lower = 1" by blast
  from calculate_similarity_mean_of_signals [of ?E ?F] j0 s0 z0
  have zero: "calculate_similarity ?E ?F = 0" by blast
  from c mid j1 s1 z1 one j0 s0 z0 zero show ?thesis by blast
qed

section \<open>Properties of the basic summary\<close>

lemma str_nat_1: "str_nat (Suc 0) = ''1''"
  by simp

lemma f75: "format_2f (3 / 4) = ''0.75''"
  by (simp add: format_2f_def round_half_even_def)

lemma generate_basic_summary_nonempty:
  "generate_basic_summary main_brand (c # cs) = Inr None
   \<or> generate_basic_summary main_brand (c # cs) = Inl TypeError"
  by (simp add: generate_basic_summary_def assemble_summary_def Let_def split: option.splits)

text \<open>
  C6 does not hold of the code. For a non-empty list of competitors the body
  assembles the summary string and then ends without returning it: the call
  yields \<open>None\<close> (or raises \<open>TypeError\<close> when the top competitor has no
  score), never the string. At the example list of one competitor the
  assembled string is the one the claim describes, and the result is \<open>None\<close>.
\<close>

theorem generate_basic_summary_returns_none:
  "(generate_basic_summary main_brand (c # cs) = Inr None
     \<or> generate_basic_summary main_brand (c # cs) = Inl TypeError)
   \<and> assemble_summary (small_brand ''https://a.com'' [] None) [example_competitor]
     = Inr (''Analyzed 1 competitors for the brand. Average similarity score: 0.75. ''
            @ ''Most similar competitor: Gymshark with similarity score of 0.75.'')
   \<and> generate_basic_summary (small_brand ''https://a.com'' [] None) [example_competitor]
     = Inr None"
proof -
  have a: "assemble_summary (small_brand ''https://a.com'' [] None) [example_competitor]
     = Inr (''Analyzed 1 competitors for the brand. Average similarity score: 0.75. ''
            @ ''Most similar competitor: Gymshark with similarity score of 0.75.'')"
    by (simp add: assemble_summary_def example_competitor_def small_brand_def or_str_def
        or_zero_def f75 del: str_nat.simps add: str_nat_1)
  have g: "generate_basic_summary (small_brand ''https://a.com'' [] None) [example_competitor]
     = Inr None"
    by (simp add: generate_basic_summary_def a)
  from generate_basic_summary_nonempty [of main_brand c cs] a g show ?thesis
    by blast
qed

section \<open>Properties of the FAQ extractor\<close>

lemma parse_thirty: "parse_faq_page thirty_faq_soup
    = replicate 30 (FAQSchema ''Do you ship?'' ''Yes.'' None)"
  by (simp add: parse_faq_page_def thirty_faq_soup_def List.map_filter_def container_faq_def)

lemma fetch_faq_page:
  "fst (get_page_content (faq_net (urljoin example_lib ''https://shop.example'' ''/pages/faq'')) None)
     = Some ''<html>faq</html>''"
proof -
  have u: "urljoin example_lib ''https://shop.example'' ''/pages/faq''
      = ''https://shop.example/pages/faq''"
    by (simp add: example_lib_def)
  have l: "[0..<nat (MAX_RETRIES + 1)] = 0 # [Suc 0..<nat (MAX_RETRIES + 1)]"
    by (simp add: MAX_RETRIES_def upt_conv_Cons)
  show ?thesis
    unfolding u get_page_content_def Let_def option.case
    by (subst l) (simp add: faq_net_def)
qed

lemma parsed_thirty:
  "parsed_faqs example_lib faq_net faq_soup_of ''https://shop.example''
     = replicate 30 (FAQSchema ''Do you ship?'' ''Yes.'' None)"
  unfolding parsed_faqs_def faq_urls_def
  by (simp add: fetch_faq_page faq_soup_of_def parse_thirty)

lemma structure_faqs_trivial:
  "client = None \<or> found = [] \<Longrightarrow> structure_faqs L client found = found"
  by (auto simp: structure_faqs_def split: option.splits)

lemma extract_faqs_take:
  "extract_faqs L net soup_of client base_url
     = take 20 (structure_faqs L client (parsed_faqs L net soup_of base_url))"
proof (cases "parsed_faqs L net soup_of base_url \<noteq> [] \<and> client \<noteq> None")
  case True
  then show ?thesis by (simp add: extract_faqs_def Let_def)
next
  case False
  then have "client = None \<or> parsed_faqs L net soup_of base_url = []" by blast
  from structure_faqs_trivial [OF this] False show ?thesis
    by (simp add: extract_faqs_def Let_def)
qed

text \<open>
  C9, as stated, fails: with an enrichment client whose completion decodes to
  an empty list, thirty parsed FAQ pairs give a returned list of length 0, not
  20.
\<close>

theorem extract_faqs_thirty_counterexample:
  "length (parsed_faqs example_lib faq_net faq_soup_of ''https://shop.example'') = 30
   \<and> length (extract_faqs example_lib faq_net faq_soup_of (Some empty_completion)
        ''https://shop.example'') = 0"
proof -
  have "structure_faqs example_lib (Some empty_completion)
      (replicate 30 (FAQSchema ''Do you ship?'' ''Yes.'' None)) = []"
    by (simp add: structure_faqs_def empty_completion_def)
  then show ?thesis
    by (simp add: extract_faqs_take parsed_thirty)
qed

text \<open>
  C9, amended: the FAQ list returned has length at most 20, the cap being
  applied after the optional enrichment: the result is the first 20 entries of
  the enriched list. Its length is exactly 20 when the enriched list has at
  least 20 entries; in particular when no enrichment client is available and
  at least 20 (say 30) FAQ pairs were parsed.
\<close>

theorem extract_faqs_at_most_twenty:
  "length (extract_faqs L net soup_of client base_url) \<le> 20
   \<and> extract_faqs L net soup_of client base_url
       = take 20 (structure_faqs L client (parsed_faqs L net soup_of base_url))
   \<and> (20 \<le> length (structure_faqs L client (parsed_faqs L net soup_of base_url))
        \<longrightarrow> length (extract_faqs L net soup_of client base_url) = 20)
   \<and> (client = None \<and> 20 \<le> length (parsed_faqs L net soup_of base_url)
        \<longrightarrow> length (extract_faqs L net soup_of client base_url) = 20)"
proof -
  have t: "extract_faqs L net soup_of client base_url
       = take 20 (structure_faqs L client (parsed_faqs L net soup_of base_url))"
    by (rule extract_faqs_take)
  have n: "client = None \<Longrightarrow>
      structure_faqs L client (parsed_faqs L net soup_of base_url)
        = parsed_faqs L net soup_of base_url"
    by (simp add: structure_faqs_trivial)
  from t n show ?thesis by auto
qed

theorem extract_faqs_at_most_twenty_witness:
  "length (parsed_faqs example_lib faq_net faq_soup_of ''https://shop.example'') = 30
   \<and> length (extract_faqs example_lib faq_net faq_soup_of None ''https://shop.example'') = 20"
proof -
  have p: "length (parsed_faqs example_lib faq_net faq_soup_of ''https://shop.example'') = 30"
    by (simp add: parsed_thirty)
  then have "(None :: llm_client option) = None
      \<and> 20 \<le> length (parsed_faqs example_lib faq_net faq_soup_of ''https://shop.example'')"
    by simp
  with extract_faqs_at_most_twenty [of example_lib faq_net faq_soup_of None "''https://shop.example''"]
  have "length (extract_faqs example_lib faq_net faq_soup_of None ''https://shop.example'') = 20"
    by blast
  with p show ?thesis by blast
qed

section \<open>Properties of the validators and the contact extractor\<close>

lemma paren_not_separator:
  "\<not> phone_separator CHR ''(''" "\<not> phone_separator CHR '')''"
  by (simp_all add: phone_separator_def is_space_def)

lemma paren_not_digit:
  "\<not> is_digit CHR ''(''" "\<not> is_digit CHR '')''"
  by (simp_all add: is_digit_def)

lemma match_digits_chars:
  assumes "match_digits_7_15 s" and "c \<in> set s"
  shows "is_digit c \<or> c = CHR 0x0A"
proof -
  have "s = takeWhile is_digit s @ dropWhile is_digit s"
    by simp
  then have "set s = set (takeWhile is_digit s) \<union> set (dropWhile is_digit s)"
    by (metis set_append)
  with assms(2) consider "c \<in> set (takeWhile is_digit s)" | "c \<in> set (dropWhile is_digit s)"
    by blast
  then show ?thesis
  proof cases
    case 1
    then show ?thesis by (auto dest: set_takeWhileD)
  next
    case 2
    from assms(1) have "dropWhile is_digit s = [] \<or> dropWhile is_digit s = [CHR 0x0A]"
      by (simp add: match_digits_7_15_def Let_def)
    then show ?thesis
    proof
      assume "dropWhile is_digit s = []"
      with 2 have "c \<in> set []" by (simp only:)
      then show ?thesis by simp
    next
      assume "dropWhile is_digit s = [CHR 0x0A]"
      with 2 have "c \<in> set [CHR 0x0A]" by (simp only:)
      then show ?thesis by simp
    qed
  qed
qed

lemma validate_phone_number_no_paren:
  assumes "validate_phone_number phone"
  shows "CHR ''('' \<notin> set phone \<and> CHR '')'' \<notin> set phone"
proof -
  from assms have m: "match_digits_7_15 (filter (\<lambda>c. \<not> phone_separator c) phone)"
    by (simp add: validate_phone_number_def)
  have "c \<notin> set phone" if c: "c = CHR ''('' \<or> c = CHR '')''" for c
  proof
    assume "c \<in> set phone"
    with c paren_not_separator have "c \<in> set (filter (\<lambda>c. \<not> phone_separator c) phone)"
      by auto
    from match_digits_chars [OF m this] c paren_not_digit show False
      by auto
  qed
  then show ?thesis by blast
qed

lemma set_py_strip: "set (py_strip s) \<subseteq> set s"
proof -
  have "set (py_strip s) \<subseteq> set (dropWhile is_space s)"
    unfolding py_strip_def using set_dropWhileD [of _ is_space "rev (dropWhile is_space s)"]
    by auto
  also have "\<dots> \<subseteq> set s"
    using set_dropWhileD [of _ is_space s] by auto
  finally show ?thesis .
qed

lemma stripped_valid_phone_no_paren:
  assumes "p \<in> py_strip ` Collect validate_phone_number"
  shows "CHR ''('' \<notin> set p \<and> CHR '')'' \<notin> set p"
proof -
  from assms obtain q where q: "validate_phone_number q" and p: "p = py_strip q"
    by blast
  from validate_phone_number_no_paren [OF q] set_py_strip [of q] show ?thesis
    unfolding p by blast
qed

lemma take_map_filter_valid:
  "\<forall>p\<in>set (take n (map py_strip (filter validate_phone_number xs))). p \<in> py_strip ` Collect validate_phone_number"
  by (auto dest!: in_set_takeD)

lemma take_append_valid:
  assumes "\<forall>p\<in>set ys. p \<in> py_strip ` Collect validate_phone_number"
  shows "\<forall>p\<in>set (take n (ys @ map py_strip (filter (\<lambda>p. validate_phone_number p \<and> Q p) xs))).
           p \<in> py_strip ` Collect validate_phone_number"
  using assms by (auto dest!: in_set_takeD)

lemma extract_contact_details_phones:
  "\<forall>p\<in>set (phone_numbers (extract_contact_details L net text_of page_text base_url)).
     p \<in> py_strip ` Collect validate_phone_number"
proof -
  let ?first = "take 3 (map py_strip (filter validate_phone_number (phone_matches page_text)))"
  have f: "\<forall>p\<in>set ?first. p \<in> py_strip ` Collect validate_phone_number"
    by (rule take_map_filter_valid)
  have g: "\<forall>p\<in>set (take 3 (?first @ map py_strip
        (filter (\<lambda>p. validate_phone_number p \<and> p \<notin> set ?first) xs))). p \<in> py_strip ` Collect validate_phone_number" for xs
    using f by (rule take_append_valid)
  show ?thesis
    unfolding extract_contact_details_def Let_def
    using f g by (simp split: option.splits)
qed

text \<open>
  C10: \<open>validate_phone_number\<close> is false of every string that contains an
  opening or a closing parenthesis (the separators it removes are whitespace,
  the hyphen, the dollar sign and the plus sign), and so no entry of the phone
  list that \<open>extract_contact_details\<close> returns contains a parenthesis.
\<close>

theorem parenthesized_phone_rejected:
  "(\<forall>phone. CHR ''('' \<in> set phone \<or> CHR '')'' \<in> set phone
      \<longrightarrow> \<not> validate_phone_number phone)
   \<and> (\<forall>p\<in>set (phone_numbers (extract_contact_details L net text_of page_text base_url)).
        CHR ''('' \<notin> set p \<and> CHR '')'' \<notin> set p)"
  using validate_phone_number_no_paren extract_contact_details_phones
    stripped_valid_phone_no_paren by blast

lemma example_contact_details:
  "extract_contact_details example_lib dead_net (\<lambda>page. None) example_page_text
      ''https://shop.example''
    = ContactDetailsSchema\<lparr>emails := [''help@shop.example''],
        phone_numbers := [''456-7890'', ''+1-555-123-4567'']\<rparr>"
proof -
  have n: "fst (get_page_content (dead_net u) None) = None" for u
    by (simp add: get_page_content_def MAX_RETRIES_def upt_0_4 dead_net_def backoff_def)
  have e: "filter validate_email (email_matches example_page_text) = [''help@shop.example'']"
    by (simp add: example_page_text_def validate_email_def email_tail_ok_def is_local_char_def
        is_alpha_def is_digit_def is_domain_char_def)
  have v: "filter validate_phone_number (phone_matches example_page_text)
      = ['' 456-7890'', ''+1-555-123-4567 '']"
    by (simp add: example_page_text_def validate_phone_number_def match_digits_7_15_def
        phone_separator_def is_space_def is_digit_def)
  have s: "map py_strip ['' 456-7890'', ''+1-555-123-4567 ''] = [''456-7890'', ''+1-555-123-4567'']"
    by (simp add: py_strip_def is_space_def)
  show ?thesis
    unfolding extract_contact_details_def Let_def n option.case e v s
    by simp
qed

theorem parenthesized_phone_rejected_witness:
  "\<not> validate_phone_number ''(123) 456-7890''
   \<and> phone_numbers (extract_contact_details example_lib dead_net (\<lambda>page. None)
        example_page_text ''https://shop.example'') = [''456-7890'', ''+1-555-123-4567'']
   \<and> CHR ''('' \<notin> set ''456-7890'' \<and> CHR '')'' \<notin> set ''+1-555-123-4567''"
proof -
  have "CHR ''('' \<in> set ''(123) 456-7890''" by simp
  with parenthesized_phone_rejected [of example_lib dead_net "\<lambda>page. None" example_page_text
      "''https://shop.example''"]
  have a: "\<not> validate_phone_number ''(123) 456-7890''" by blast
  have b: "phone_numbers (extract_contact_details example_lib dead_net (\<lambda>page. None)
        example_page_text ''https://shop.example'') = [''456-7890'', ''+1-555-123-4567'']"
    by (simp add: example_contact_details ContactDetailsSchema_def)
  from a b show ?thesis by simp
qed

section \<open>Properties of the social extractor\<close>

lemma lower_char_link_chars:
  "lower_char CHR ''.'' = CHR ''.''" "lower_char CHR ''/'' = CHR ''/''"
  "lower_char CHR '':'' = CHR '':''" "lower_char CHR ''a'' = CHR ''a''"
  "lower_char CHR ''c'' = CHR ''c''" "lower_char CHR ''d'' = CHR ''d''"
  "lower_char CHR ''e'' = CHR ''e''" "lower_char CHR ''f'' = CHR ''f''"
  "lower_char CHR ''g'' = CHR ''g''" "lower_char CHR ''h'' = CHR ''h''"
  "lower_char CHR ''i'' = CHR ''i''" "lower_char CHR ''m'' = CHR ''m''"
  "lower_char CHR ''n'' = CHR ''n''" "lower_char CHR ''o'' = CHR ''o''"
  "lower_char CHR ''p'' = CHR ''p''" "lower_char CHR ''r'' = CHR ''r''"
  "lower_char CHR ''s'' = CHR ''s''" "lower_char CHR ''t'' = CHR ''t''"
  by (simp_all add: lower_char_def upper_letters_def lower_letters_def)

lemma lower_instagram: "lower ''instagram'' = ''instagram''"
  by (simp add: lower_def lower_char_link_chars)

lemma lower_first: "lower ''https://instagram.com/first'' = ''https://instagram.com/first''"
  by (simp add: lower_def lower_char_link_chars)

lemma lower_second: "lower ''https://instagram.com/second'' = ''https://instagram.com/second''"
  by (simp add: lower_def lower_char_link_chars)

lemma handle_first:
  "extract_social_handle example_lib ''https://instagram.com/first'' Instagram = Some ''first''"
  by (simp add: extract_social_handle_def example_lib_def startswith_def match_here_def
      ci_prefix_def handle_run_def lower_def lower_char_link_chars)

lemma handle_second:
  "extract_social_handle example_lib ''https://instagram.com/second'' Instagram = Some ''second''"
  by (simp add: extract_social_handle_def example_lib_def startswith_def match_here_def
      ci_prefix_def handle_run_def lower_def lower_char_link_chars)

lemma link_first:
  "link_platform example_lib ''https://instagram.com/first'' platforms = Some (Instagram, ''first'')"
  by (simp add: platforms_def lower_instagram lower_first handle_first)

lemma link_second:
  "link_platform example_lib ''https://instagram.com/second'' platforms
     = Some (Instagram, ''second'')"
  by (simp add: platforms_def lower_instagram lower_second handle_second)

text \<open>
  C5 does not hold of the code. The scan stores a handle whenever a link
  yields one, with no check that the platform has a handle already: of two
  Instagram links on one page, each of which matches on its own, the handle of
  the second replaces the handle of the first.
\<close>

theorem extract_social_handles_last_match_wins:
  "link_platform example_lib ''https://instagram.com/first'' platforms = Some (Instagram, ''first'')
   \<and> link_platform example_lib ''https://instagram.com/second'' platforms
       = Some (Instagram, ''second'')
   \<and> instagram (extract_social_handles example_lib [''https://instagram.com/first''])
       = Some ''first''
   \<and> instagram (extract_social_handles example_lib
         [''https://instagram.com/first'', ''https://instagram.com/second'']) = Some ''second''"
  by (simp add: extract_social_handles_def link_first link_second)

section \<open>Properties of the orchestrator\<close>




lemma validated_Inr: "validated x k = Inr r \<Longrightarrow> \<exists>v. x = Inr v \<and> k v = Inr r"
  by (cases x) (simp_all add: validated_def)

lemma validated_Inl:
  "(\<And>v. k v = Inl e \<Longrightarrow> e = ValidationError) \<Longrightarrow> validated x k = Inl e \<Longrightarrow> e = ValidationError"
  by (cases x) (simp_all add: validated_def)





end
